theory Spec2Isabelle
  imports Main
begin

section \<open>Python values used by \<^verbatim>\<open>reddit_qa_to_notion_mcp.py\<close>\<close>

text \<open>
  A Python \<^verbatim>\<open>str\<close> is modelled as a \<open>string\<close>; one \<open>char\<close> stands for one character of
  the Python string, so \<open>length\<close> is Python's \<^verbatim>\<open>len\<close> and \<open>take\<close> is a slice from the
  start. Only concatenation, equality, length and slicing of strings are used by the
  source, and none of them depends on the size of the alphabet.

  \<^verbatim>\<open>os.getenv(name)\<close> is a lookup in a partial map and yields \<open>None\<close> for a variable
  that is not set.
\<close>

type_synonym environ = "string \<rightharpoonup> string"

definition truthy :: "string option \<Rightarrow> bool" where
  \<comment> \<open>Python's truth value of an optional string: \<^verbatim>\<open>None\<close> and \<^verbatim>\<open>""\<close> are false.\<close>
  "truthy v = (case v of None \<Rightarrow> False | Some s \<Rightarrow> s \<noteq> [])"

definition py_or :: "string option \<Rightarrow> string option \<Rightarrow> string option" where
  \<comment> \<open>\<^verbatim>\<open>a or b\<close>: the first operand when it is true, the second one otherwise.\<close>
  "py_or a b = (if truthy a then a else b)"

definition py_prefix :: "int \<Rightarrow> 'a list \<Rightarrow> 'a list" where
  \<comment> \<open>\<^verbatim>\<open>xs[:n]\<close>: a negative bound counts from the end and is clamped at the start.\<close>
  "py_prefix n xs =
     (if 0 \<le> n then take (nat n) xs else take (length xs - nat (- n)) xs)"

definition newline :: char where
  "newline = CHR 0x0A"

definition digit :: "nat \<Rightarrow> char" where
  "digit d = ''0123456789'' ! d"

function str_nat :: "nat \<Rightarrow> string" where
  "str_nat n = (if n < 10 then [digit n] else str_nat (n div 10) @ [digit (n mod 10)])"
  by pat_completeness auto
termination
  by (relation "measure (\<lambda>n. n)") auto

declare str_nat.simps [simp del]

definition str_int :: "int \<Rightarrow> string" where
  \<comment> \<open>\<^verbatim>\<open>str(i)\<close> for an \<^verbatim>\<open>int\<close>: decimal digits, with a sign for a negative number.\<close>
  "str_int i = (if i < 0 then CHR ''-'' # str_nat (nat (- i)) else str_nat (nat i))"

section \<open>HTTP responses and exceptions\<close>

text \<open>
  The response object of \<^verbatim>\<open>requests\<close>: the source reads \<^verbatim>\<open>status_code\<close>,
  \<^verbatim>\<open>headers\<close> and \<^verbatim>\<open>text\<close> of it.
\<close>

record http_response =
  status_code :: int
  headers :: "(string \<times> string) list"
  body_text :: string

text \<open>
  The attribute \<^verbatim>\<open>response\<close> of an exception, as the handlers meet it: the exception
  has no such attribute (\<^verbatim>\<open>hasattr(e, 'response')\<close> is false), or it has the attribute
  with the value \<^verbatim>\<open>None\<close> (the exceptions of \<^verbatim>\<open>requests\<close> are made so when no
  response was received), or it has the attribute with a response object.
\<close>

datatype response_attr =
  NoResponseAttr
| ResponseNone
| ResponseObj http_response

text \<open>
  An instance of \<^verbatim>\<open>Exception\<close>, which is what every handler of the source catches
  (\<^verbatim>\<open>except Exception as e\<close>). The handlers read \<^verbatim>\<open>str(e)\<close>,
  \<^verbatim>\<open>type(e).__name__\<close> and the attribute \<^verbatim>\<open>response\<close>.
\<close>

record exc =
  str_e :: string
  type_name :: string
  response :: response_attr

definition quote :: char where
  "quote = CHR 0x27"

definition attribute_error :: "string \<Rightarrow> string \<Rightarrow> exc" where
  \<comment> \<open>\<^verbatim>\<open>AttributeError\<close>: reading an attribute that an object does not have.\<close>
  "attribute_error cls attr =
     \<lparr> str_e = [quote] @ cls @ [quote] @ '' object has no attribute '' @
               [quote] @ attr @ [quote],
       type_name = ''AttributeError'',
       response = NoResponseAttr \<rparr>"

section \<open>The Notion page writer\<close>

text \<open>A source of \<^verbatim>\<open>reddit_sources\<close> is a \<^verbatim>\<open>Dict[str, str]\<close>.\<close>

type_synonym source = "string \<rightharpoonup> string"

definition dict_get :: "source \<Rightarrow> string \<Rightarrow> string \<Rightarrow> string" where
  \<comment> \<open>\<^verbatim>\<open>d.get(key, default)\<close>\<close>
  "dict_get d k dflt = (case d k of None \<Rightarrow> dflt | Some v \<Rightarrow> v)"

definition source_line :: "nat \<Rightarrow> source \<Rightarrow> string" where
  \<comment> \<open>\<^verbatim>\<open>f"{i}. [{source.get('title', 'Untitled')}]({source.get('url', '#')})\n"\<close>\<close>
  "source_line i src =
     str_nat i @ ''. ['' @ dict_get src ''title'' ''Untitled'' @ '']('' @
     dict_get src ''url'' ''#'' @ '')'' @ [newline]"

text \<open>
  The loop \<^verbatim>\<open>for i, source in enumerate(reddit_sources, 1): sources_text += ...\<close>,
  with the counter and the text built so far as its state.
\<close>

fun render_sources :: "nat \<Rightarrow> source list \<Rightarrow> string \<Rightarrow> string" where
  "render_sources i [] sources_text = sources_text"
| "render_sources i (src # rest) sources_text =
     render_sources (Suc i) rest (sources_text @ source_line i src)"

definition format_sources :: "source list \<Rightarrow> string" where
  "format_sources reddit_sources = render_sources 1 reddit_sources []"

text \<open>
  The request of \<^verbatim>\<open>requests.post(url_endpoint, json=page_data, headers=headers)\<close>: the
  endpoint, the three headers and the fields of \<^verbatim>\<open>page_data\<close>.
\<close>

record notion_request =
  url_endpoint :: string
  authorization :: string
  content_type :: string
  notion_version :: string
  parent_database_id :: string
  question_title :: string
  answer_rich_text :: string
  search_query_rich_text :: string
  reddit_sources_rich_text :: string
  created_start :: string

text \<open>
  The result dictionary: \<^verbatim>\<open>{"success": True, "message": ..., "question": ...}\<close> or
  \<^verbatim>\<open>{"error": ...}\<close>.
\<close>

datatype save_result =
  SaveSuccess string string
| SaveError string

definition is_success :: "save_result \<Rightarrow> bool" where
  "is_success r = (case r of SaveSuccess m q \<Rightarrow> True | SaveError e \<Rightarrow> False)"

definition echo_question :: "string \<Rightarrow> string" where
  \<comment> \<open>\<^verbatim>\<open>question[:50] + "..." if len(question) > 50 else question\<close>\<close>
  "echo_question question =
     (if length question > 50 then take 50 question @ ''...'' else question)"

definition page_request ::
  "string \<Rightarrow> string \<Rightarrow> string \<Rightarrow> string \<Rightarrow> string \<Rightarrow> string \<Rightarrow> source list
    \<Rightarrow> notion_request" where
  "page_request database_id api_token now question answer search_query reddit_sources =
     \<lparr> url_endpoint = ''https://api.notion.com/v1/pages'',
       authorization = ''Bearer '' @ api_token,
       content_type = ''application/json'',
       notion_version = ''2022-06-28'',
       parent_database_id = database_id,
       question_title = question,
       answer_rich_text = answer,
       search_query_rich_text = search_query,
       reddit_sources_rich_text = format_sources reddit_sources,
       created_start = now \<rparr>"

text \<open>
  \<^verbatim>\<open>save_reddit_qa_to_notion\<close>. The process environment, the network
  (\<^verbatim>\<open>requests.post\<close>: a response, or an exception raised) and the clock
  (\<^verbatim>\<open>datetime.now().isoformat()\<close>) are parameters. The function returns its result
  together with the requests it has sent, in order, so that the network calls of a run
  can be counted. The \<^verbatim>\<open>try\<close> block of the source is the whole body; its handler
  is the \<open>Inl\<close> branch.
\<close>

definition save_reddit_qa_to_notion ::
  "environ \<Rightarrow> (notion_request \<Rightarrow> exc + http_response) \<Rightarrow> string
    \<Rightarrow> string \<Rightarrow> string \<Rightarrow> string \<Rightarrow> source list
    \<Rightarrow> save_result \<times> notion_request list" where
  "save_reddit_qa_to_notion env post now question answer search_query reddit_sources =
     (let database_id = py_or (env ''NOTION_QA_DATABASE_ID'') (env ''NOTION_DATABASE_ID'');
          api_token = env ''NOTION_API_TOKEN''
      in case (if truthy database_id then database_id else None) of
           None \<Rightarrow>
             (SaveError
                ''NOTION_QA_DATABASE_ID or NOTION_DATABASE_ID environment variable not set'',
              [])
         | Some db \<Rightarrow>
             (case (if truthy api_token then api_token else None) of
                None \<Rightarrow> (SaveError ''NOTION_API_TOKEN environment variable not set'', [])
              | Some tok \<Rightarrow>
                  (let req = page_request db tok now question answer search_query
                               reddit_sources
                   in case post req of
                        Inr resp \<Rightarrow>
                          (if status_code resp = 200
                           then (SaveSuccess ''Successfully saved Q&A session to Notion''
                                   (echo_question question), [req])
                           else (SaveError (''Failed to save to Notion: '' @
                                   str_int (status_code resp) @ '' - '' @ body_text resp),
                                 [req]))
                      | Inl e \<Rightarrow>
                          (SaveError (''Error saving Q&A to Notion: '' @ str_e e), [req]))))"

section \<open>The bearer token verifier\<close>

text \<open>
  \<^verbatim>\<open>AccessToken(token=token, client_id="single_user", scopes=[...], expires_at=None)\<close>
\<close>

record access_token =
  token :: string
  client_id :: string
  scopes :: "string list"
  expires_at :: "int option"

definition SimpleTokenVerifier_init :: "environ \<Rightarrow> string option" where
  \<comment> \<open>\<^verbatim>\<open>self.valid_token = os.getenv("MCP_API_KEY")\<close>\<close>
  "SimpleTokenVerifier_init env = env ''MCP_API_KEY''"

definition verify_token :: "string option \<Rightarrow> string \<Rightarrow> access_token option" where
  \<comment> \<open>\<^verbatim>\<open>if not self.valid_token or token != self.valid_token: return None\<close>\<close>
  "verify_token valid_token tok =
     (if \<not> truthy valid_token \<or> Some tok \<noteq> valid_token then None
      else Some \<lparr> token = tok, client_id = ''single_user'',
                  scopes = [''reddit:read'', ''notion:write''], expires_at = None \<rparr>)"

section \<open>The libraries, as far as the source relies on them\<close>

text \<open>
  The comment tree of a post: a comment with its body and its replies, or a
  "load more" placeholder (\<^verbatim>\<open>MoreComments\<close>).
\<close>

datatype comment_node =
  Comment string "comment_node list"
| MoreComments

text \<open>
  Modelled from the spec: \<^verbatim>\<open>post.comments.replace_more(limit=0)\<close> of the client
  library, which is not part of the repository. The spec: "discard any load more
  placeholder nodes (treat them as contributing zero comments rather than recursing into
  them)". The placeholders are dropped at every depth of the tree, and nothing is fetched.
\<close>

fun drop_more :: "comment_node \<Rightarrow> comment_node list" where
  "drop_more MoreComments = []"
| "drop_more (Comment b rs) = [Comment b (concat (map drop_more rs))]"

definition replace_more :: "comment_node list \<Rightarrow> comment_node list" where
  "replace_more forest = concat (map drop_more forest)"

fun replies_of :: "comment_node \<Rightarrow> comment_node list" where
  "replies_of (Comment b rs) = rs"
| "replies_of MoreComments = []"

text \<open>
  Modelled from the spec: \<^verbatim>\<open>post.comments.list()\<close> of the client library, which is
  not part of the repository. The spec: "flatten the remaining tree into an ordered
  sequence". The library flattens breadth first with a queue: the nodes of the top level
  in their order, then their replies, level by level.
\<close>

function comments_list :: "comment_node list \<Rightarrow> comment_node list" where
  "comments_list [] = []"
| "comments_list (c # queue) = c # comments_list (queue @ replies_of c)"
  by pat_completeness auto
termination
proof (relation "measure (\<lambda>q. sum_list (map (\<lambda>c. Suc (size c)) q))")
  show "wf (measure (\<lambda>q. sum_list (map (\<lambda>c. Suc (size c)) q)))"
    by simp
next
  fix c :: comment_node and queue :: "comment_node list"
  have "sum_list (map (\<lambda>c. Suc (size c)) (replies_of c)) \<le> size c"
    by (cases c) (simp_all add: size_list_conv_sum_list sum_list_Suc)
  then show "(queue @ replies_of c, c # queue)
      \<in> measure (\<lambda>q. sum_list (map (\<lambda>c. Suc (size c)) q))"
    by simp
qed

fun comment_body :: "comment_node \<Rightarrow> exc + string" where
  \<comment> \<open>\<^verbatim>\<open>comment.body\<close>: a placeholder has no body.\<close>
  "comment_body (Comment b rs) = Inr b"
| "comment_body MoreComments = Inl (attribute_error ''MoreComments'' ''body'')"

text \<open>
  A number as the client library delivers it: an \<^verbatim>\<open>int\<close>, or a \<^verbatim>\<open>float\<close> given by
  mantissa and exponent, \<open>m * 2 ^ e\<close> (the creation time of a post is a \<^verbatim>\<open>float\<close>).
\<close>

datatype py_number =
  IntValue int
| FloatValue int int

text \<open>
  A post as the listing yields it. Reading an attribute gives its value or raises. The
  texts are \<^verbatim>\<open>str\<close>, the two numbers are numbers of either kind.
  \<^verbatim>\<open>post.comments\<close> fetches the comment tree of the post, which may raise.
\<close>

record submission =
  sub_title :: "exc + string"
  sub_selftext :: "exc + string"
  sub_url :: "exc + string"
  sub_created_utc :: "exc + py_number"
  sub_num_comments :: "exc + py_number"
  sub_permalink :: "exc + string"
  sub_comments :: "exc + comment_node list"

text \<open>
  A listing iterator: it is exhausted, or it raises, or it yields a post and goes on.
\<close>

datatype listing =
  Exhausted
| Raises exc
| Yields submission listing

text \<open>
  Modelled from the spec: the listing generator of the client library, which is not part
  of the repository and receives \<^verbatim>\<open>limit=limit\<close> from the source. The spec: "for
  each post in iteration order up to limit". The generator stops once it has yielded
  \<open>limit\<close> posts, without asking the listing for more; a limit that is not positive
  yields nothing.
\<close>

fun up_to :: "nat \<Rightarrow> listing \<Rightarrow> listing" where
  "up_to 0 l = Exhausted"
| "up_to (Suc n) Exhausted = Exhausted"
| "up_to (Suc n) (Raises e) = Raises e"
| "up_to (Suc n) (Yields p rest) = Yields p (up_to n rest)"

definition listing_generator :: "int \<Rightarrow> listing \<Rightarrow> listing" where
  "listing_generator limit l = up_to (nat limit) l"

text \<open>
  The client object \<^verbatim>\<open>reddit\<close>: the two diagnostic attributes the handlers read, and
  the calls \<^verbatim>\<open>reddit.subreddit(s).top(time_filter=t, limit=n)\<close> and
  \<^verbatim>\<open>reddit.subreddit(s).search(q, sort=o, limit=n)\<close>. A call raises (for a time filter
  the library refuses, say), or it returns the listing that the generator then cuts at the
  limit.
\<close>

record reddit_client =
  read_only :: bool
  config_client_id :: "string option"
  subreddit_top :: "string \<Rightarrow> string \<Rightarrow> int \<Rightarrow> exc + listing"
  subreddit_search :: "string \<Rightarrow> string \<Rightarrow> string \<Rightarrow> int \<Rightarrow> exc + listing"

text \<open>
  The validation that \<^verbatim>\<open>BaseModel\<close> runs when \<^verbatim>\<open>RedditPost(...)\<close> is called belongs
  to the model library, which is not part of the repository. It is a parameter: what an
  \<^verbatim>\<open>int\<close> field makes of a number (the converted value, or \<open>None\<close> when the field
  rejects it), and the exception raised for the rejected fields, given by name and value.
\<close>

record pydantic =
  int_field :: "py_number \<Rightarrow> int option"
  validation_error :: "(string \<times> py_number) list \<Rightarrow> exc"

section \<open>The Reddit query client\<close>

text \<open>\<^verbatim>\<open>class RedditPost(BaseModel)\<close>, and the dictionary \<^verbatim>\<open>model_dump()\<close> makes of it.\<close>

record reddit_post =
  title :: string
  body :: string
  url :: string
  created_utc :: int
  num_comments :: int
  permalink :: string
  comments :: "string list"

text \<open>
  The call \<^verbatim>\<open>RedditPost(title=..., ..., comments=[])\<close> with its arguments evaluated. The
  \<^verbatim>\<open>str\<close> fields receive a \<^verbatim>\<open>str\<close> and \<^verbatim>\<open>comments\<close> receives a list of
  \<^verbatim>\<open>str\<close>, which are accepted as they are; the two \<^verbatim>\<open>int\<close> fields are validated.
\<close>

definition RedditPost ::
  "pydantic \<Rightarrow> string \<Rightarrow> string \<Rightarrow> string \<Rightarrow> py_number \<Rightarrow> py_number \<Rightarrow> string \<Rightarrow> string list
    \<Rightarrow> exc + reddit_post" where
  "RedditPost pyd t b u c n p cs =
     (case (int_field pyd c, int_field pyd n) of
        (Some c', Some n') \<Rightarrow>
          Inr \<lparr> title = t, body = b, url = u, created_utc = c', num_comments = n',
                permalink = p, comments = cs \<rparr>
      | (None, Some n') \<Rightarrow> Inl (validation_error pyd [(''created_utc'', c)])
      | (Some c', None) \<Rightarrow> Inl (validation_error pyd [(''num_comments'', n)])
      | (None, None) \<Rightarrow>
          Inl (validation_error pyd [(''created_utc'', c), (''num_comments'', n)]))"

definition and_then :: "exc + 'a \<Rightarrow> ('a \<Rightarrow> exc + 'b) \<Rightarrow> exc + 'b" where
  \<comment> \<open>Sequencing: the first exception raised ends the block.\<close>
  "and_then r f = (case r of Inl e \<Rightarrow> Inl e | Inr v \<Rightarrow> f v)"

definition new_post_data :: "pydantic \<Rightarrow> submission \<Rightarrow> exc + reddit_post" where
  \<comment> \<open>\<^verbatim>\<open>post_data = RedditPost(title=post.title, ..., comments=[])\<close>, the arguments read
      from left to right, then the call.\<close>
  "new_post_data pyd post =
     and_then (sub_title post) (\<lambda>t.
     and_then (sub_selftext post) (\<lambda>s.
     and_then (sub_url post) (\<lambda>u.
     and_then (sub_created_utc post) (\<lambda>c.
     and_then (sub_num_comments post) (\<lambda>n.
     and_then (sub_permalink post) (\<lambda>p.
       RedditPost pyd t s u c n (''https://reddit.com'' @ p) []))))))"

text \<open>
  \<^verbatim>\<open>for comment in ...: post_data.comments.append(comment.body)\<close>
\<close>

fun append_bodies :: "comment_node list \<Rightarrow> reddit_post \<Rightarrow> exc + reddit_post" where
  "append_bodies [] post_data = Inr post_data"
| "append_bodies (c # cs) post_data =
     and_then (comment_body c) (\<lambda>b.
       append_bodies cs (post_data\<lparr>comments := comments post_data @ [b]\<rparr>))"

definition post_record :: "pydantic \<Rightarrow> int \<Rightarrow> submission \<Rightarrow> exc + reddit_post" where
  \<comment> \<open>The body of the loop over the listing, which is the same in the three operations.\<close>
  "post_record pyd comment_limit post =
     and_then (new_post_data pyd post) (\<lambda>post_data.
     and_then (sub_comments post) (\<lambda>forest.
       append_bodies (py_prefix comment_limit (comments_list (replace_more forest)))
         post_data))"

text \<open>
  \<^verbatim>\<open>for post in listing: ...; posts.append(post_data.model_dump())\<close>, with the posts
  collected so far as the state of the loop.
\<close>

fun collect_posts ::
  "pydantic \<Rightarrow> int \<Rightarrow> listing \<Rightarrow> reddit_post list \<Rightarrow> exc + reddit_post list" where
  "collect_posts pyd comment_limit Exhausted posts = Inr posts"
| "collect_posts pyd comment_limit (Raises e) posts = Inl e"
| "collect_posts pyd comment_limit (Yields post rest) posts =
     and_then (post_record pyd comment_limit post) (\<lambda>post_data.
       collect_posts pyd comment_limit rest (posts @ [post_data]))"

definition try_block ::
  "pydantic \<Rightarrow> int \<Rightarrow> int \<Rightarrow> exc + listing \<Rightarrow> exc + reddit_post list" where
  \<comment> \<open>The \<^verbatim>\<open>try\<close> block, which the three operations share but for the call that makes
      the listing: the call, then the loop over the listing cut at the limit.\<close>
  "try_block pyd limit comment_limit call =
     and_then call (\<lambda>l. collect_posts pyd comment_limit (listing_generator limit l) [])"

text \<open>
  The dictionary \<^verbatim>\<open>error_details\<close> is built by a literal and an \<^verbatim>\<open>update\<close>; it is an
  association list in insertion order of its keys.
\<close>

datatype py_value =
  PyStr string
| PyInt int
| PyBool bool
| PyDict "(string \<times> string) list"

type_synonym py_dict = "(string \<times> py_value) list"

fun dict_set :: "py_dict \<Rightarrow> string \<Rightarrow> py_value \<Rightarrow> py_dict" where
  \<comment> \<open>\<^verbatim>\<open>d[k] = v\<close>: a key that is present keeps its place.\<close>
  "dict_set [] k v = [(k, v)]"
| "dict_set ((k', v') # d) k v =
     (if k' = k then (k, v) # d else (k', v') # dict_set d k v)"

fun dict_update :: "py_dict \<Rightarrow> py_dict \<Rightarrow> py_dict" where
  \<comment> \<open>\<^verbatim>\<open>d.update(other)\<close>\<close>
  "dict_update d [] = d"
| "dict_update d ((k, v) # other) = dict_update (dict_set d k v) other"

definition response_details :: "exc \<Rightarrow> py_dict \<Rightarrow> exc + py_dict" where
  \<comment> \<open>\<^verbatim>\<open>if hasattr(e, 'response'): error_details.update({...})\<close>. For an attribute that
      is \<^verbatim>\<open>None\<close> the first read, \<^verbatim>\<open>e.response.status_code\<close>, raises.\<close>
  "response_details e details =
     (case response e of
        NoResponseAttr \<Rightarrow> Inr details
      | ResponseNone \<Rightarrow> Inl (attribute_error ''NoneType'' ''status_code'')
      | ResponseObj r \<Rightarrow>
          Inr (dict_update details
                 [(''http_status'', PyInt (status_code r)),
                  (''response_headers'', PyDict (headers r)),
                  (''response_body'', PyStr (take 500 (body_text r)))]))"

text \<open>The dictionary returned in place of the posts, as the only element of the list.\<close>

record error_record =
  error_details :: py_dict
  message :: string
  debug_info :: string

datatype tool_item =
  PostDict reddit_post
| ErrorDict error_record

text \<open>
  The three \<^verbatim>\<open>except Exception as e\<close> blocks. Each returns a list with one element,
  unless it raises itself: then the exception leaves the operation.
\<close>

definition top_posts_handler ::
  "reddit_client \<Rightarrow> string \<Rightarrow> string \<Rightarrow> exc \<Rightarrow> exc + tool_item list" where
  "top_posts_handler reddit subreddits time_filter e =
     and_then
       (response_details e
          [(''error'', PyStr (str_e e)),
           (''error_type'', PyStr (type_name e)),
           (''subreddits'', PyStr subreddits),
           (''time_filter'', PyStr time_filter),
           (''reddit_read_only'', PyBool (read_only reddit)),
           (''client_id_exists'', PyBool (truthy (config_client_id reddit)))])
       (\<lambda>details.
          Inr [ErrorDict
                 \<lparr> error_details = details,
                   message = ''Top posts retrieval failed for r/'' @ subreddits @ '': '' @
                             str_e e,
                   debug_info = ''Check error_details for Reddit API response information'' \<rparr>])"

definition search_posts_handler :: "reddit_client \<Rightarrow> string \<Rightarrow> exc \<Rightarrow> exc + tool_item list" where
  "search_posts_handler reddit subreddits e =
     and_then
       (response_details e
          [(''error'', PyStr (str_e e)),
           (''error_type'', PyStr (type_name e)),
           (''subreddits'', PyStr subreddits),
           (''reddit_read_only'', PyBool (read_only reddit)),
           (''client_id_exists'', PyBool (truthy (config_client_id reddit)))])
       (\<lambda>details.
          Inr [ErrorDict
                 \<lparr> error_details = details,
                   message = ''Subreddit search failed for r/'' @ subreddits @ '': '' @ str_e e,
                   debug_info = ''Check error_details for Reddit API response information'' \<rparr>])"

definition search_reddit_handler :: "reddit_client \<Rightarrow> exc \<Rightarrow> exc + tool_item list" where
  "search_reddit_handler reddit e =
     and_then
       (response_details e
          [(''error'', PyStr (str_e e)),
           (''error_type'', PyStr (type_name e)),
           (''reddit_read_only'', PyBool (read_only reddit)),
           (''client_id_exists'', PyBool (truthy (config_client_id reddit)))])
       (\<lambda>details.
          Inr [ErrorDict
                 \<lparr> error_details = details,
                   message = ''Reddit search failed: '' @ str_e e,
                   debug_info = ''Check error_details for Reddit API response information'' \<rparr>])"

text \<open>
  The three operations. A result \<open>Inr\<close> is the list returned; a result \<open>Inl\<close> is an
  exception that leaves the operation and reaches its caller.
\<close>

definition get_top_subreddit_posts ::
  "pydantic \<Rightarrow> reddit_client \<Rightarrow> string \<Rightarrow> int \<Rightarrow> int \<Rightarrow> string \<Rightarrow> exc + tool_item list" where
  "get_top_subreddit_posts pyd reddit subreddits limit comment_limit time_filter =
     (case try_block pyd limit comment_limit
             (subreddit_top reddit subreddits time_filter limit) of
        Inr posts \<Rightarrow> Inr (map PostDict posts)
      | Inl e \<Rightarrow> top_posts_handler reddit subreddits time_filter e)"

definition search_posts ::
  "pydantic \<Rightarrow> reddit_client \<Rightarrow> string \<Rightarrow> string \<Rightarrow> int \<Rightarrow> int \<Rightarrow> string
    \<Rightarrow> exc + tool_item list" where
  "search_posts pyd reddit subreddits query limit comment_limit sort_order =
     (case try_block pyd limit comment_limit
             (subreddit_search reddit subreddits query sort_order limit) of
        Inr posts \<Rightarrow> Inr (map PostDict posts)
      | Inl e \<Rightarrow> search_posts_handler reddit subreddits e)"

definition search_reddit ::
  "pydantic \<Rightarrow> reddit_client \<Rightarrow> string \<Rightarrow> int \<Rightarrow> int \<Rightarrow> string \<Rightarrow> exc + tool_item list" where
  "search_reddit pyd reddit query limit comment_limit sort_order =
     (case try_block pyd limit comment_limit
             (subreddit_search reddit ''all'' query sort_order limit) of
        Inr posts \<Rightarrow> Inr (map PostDict posts)
      | Inl e \<Rightarrow> search_reddit_handler reddit e)"

section \<open>Notions used to state the properties\<close>

fun yielded :: "listing \<Rightarrow> submission list" where
  \<comment> \<open>The posts a listing yields before it is exhausted or raises.\<close>
  "yielded Exhausted = []"
| "yielded (Raises e) = []"
| "yielded (Yields p rest) = p # yielded rest"

fun yields_then :: "submission list \<Rightarrow> listing \<Rightarrow> listing" where
  \<comment> \<open>The listing that yields the given posts and then goes on as the given one.\<close>
  "yields_then [] tail = tail"
| "yields_then (p # ps) tail = Yields p (yields_then ps tail)"

definition raised_by :: "exc + 'a \<Rightarrow> exc option" where
  \<comment> \<open>The exception a read raises, if it raises.\<close>
  "raised_by r = (case r of Inl e \<Rightarrow> Some e | Inr v \<Rightarrow> None)"

fun first_raised :: "exc option list \<Rightarrow> exc option" where
  "first_raised [] = None"
| "first_raised (Some e # rs) = Some e"
| "first_raised (None # rs) = first_raised rs"

definition attribute_reads :: "submission \<Rightarrow> exc option list" where
  \<comment> \<open>The six attribute reads of a post, in the order in which the source makes them.\<close>
  "attribute_reads p =
     [raised_by (sub_title p), raised_by (sub_selftext p), raised_by (sub_url p),
      raised_by (sub_created_utc p), raised_by (sub_num_comments p),
      raised_by (sub_permalink p)]"

definition rejected :: "pydantic \<Rightarrow> string \<Rightarrow> exc + py_number \<Rightarrow> (string \<times> py_number) list" where
  \<comment> \<open>The field with its value, when the value was read and the field rejects it.\<close>
  "rejected pyd name r =
     (case r of
        Inl e \<Rightarrow> []
      | Inr v \<Rightarrow> (case int_field pyd v of None \<Rightarrow> [(name, v)] | Some i \<Rightarrow> []))"

definition rejected_fields :: "pydantic \<Rightarrow> submission \<Rightarrow> (string \<times> py_number) list" where
  "rejected_fields pyd p =
     rejected pyd ''created_utc'' (sub_created_utc p) @
     rejected pyd ''num_comments'' (sub_num_comments p)"

definition post_raises :: "pydantic \<Rightarrow> submission \<Rightarrow> exc option" where
  \<comment> \<open>The exception that handling a post raises, if any: that of the first attribute
      read that raises (post access); else that of the validation, when a field rejects
      its value; else that of fetching the comment tree.\<close>
  "post_raises pyd p =
     (case first_raised (attribute_reads p) of
        Some e \<Rightarrow> Some e
      | None \<Rightarrow>
          (case rejected_fields pyd p of
             r # rs \<Rightarrow> Some (validation_error pyd (r # rs))
           | [] \<Rightarrow> raised_by (sub_comments p)))"

fun bodies_of :: "comment_node list \<Rightarrow> string list" where
  \<comment> \<open>The bodies of the comments of a list of nodes; a placeholder has none.\<close>
  "bodies_of [] = []"
| "bodies_of (Comment b rs # cs) = b # bodies_of cs"
| "bodies_of (MoreComments # cs) = bodies_of cs"

fun no_placeholder :: "comment_node \<Rightarrow> bool" where
  \<comment> \<open>No placeholder at any depth.\<close>
  "no_placeholder MoreComments = False"
| "no_placeholder (Comment b rs) = list_all no_placeholder rs"

definition first_comments :: "int \<Rightarrow> submission \<Rightarrow> reddit_post \<Rightarrow> bool" where
  \<comment> \<open>The comments of the record are the bodies of the first \<open>comment_limit\<close> comments
      of the flattened tree of the post, in the order of the flattened tree.\<close>
  "first_comments comment_limit p d =
     (case sub_comments p of
        Inl e \<Rightarrow> False
      | Inr forest \<Rightarrow>
          comments d = py_prefix comment_limit (bodies_of (comments_list (replace_more forest))))"

definition top_level_first :: "int \<Rightarrow> submission \<Rightarrow> reddit_post \<Rightarrow> bool" where
  \<comment> \<open>The comments of the record are the first \<open>comment_limit\<close> of: the bodies of the
      comments of the top level (placeholders skipped), followed by the bodies of the
      replies, level by level.\<close>
  "top_level_first comment_limit p d =
     (case sub_comments p of
        Inl e \<Rightarrow> False
      | Inr forest \<Rightarrow>
          comments d =
            py_prefix comment_limit
              (bodies_of forest @
               bodies_of (comments_list (concat (map replies_of (replace_more forest))))))"

definition http_details :: "exc \<Rightarrow> py_dict" where
  \<comment> \<open>The three entries for the response of an exception that carries one.\<close>
  "http_details e =
     (case response e of
        ResponseObj r \<Rightarrow>
          [(''http_status'', PyInt (status_code r)),
           (''response_headers'', PyDict (headers r)),
           (''response_body'', PyStr (take 500 (body_text r)))]
      | NoResponseAttr \<Rightarrow> []
      | ResponseNone \<Rightarrow> [])"

section \<open>Example inputs\<close>

definition example_env :: environ where
  "example_env =
     [''NOTION_QA_DATABASE_ID'' \<mapsto> ''qa-db'', ''NOTION_DATABASE_ID'' \<mapsto> ''main-db'',
      ''NOTION_API_TOKEN'' \<mapsto> ''secret'']"

definition fallback_env :: environ where
  "fallback_env =
     [''NOTION_DATABASE_ID'' \<mapsto> ''main-db'', ''NOTION_API_TOKEN'' \<mapsto> ''secret'']"

definition reply_with :: "int \<Rightarrow> string \<Rightarrow> notion_request \<Rightarrow> exc + http_response" where
  "reply_with status txt req = Inr \<lparr> status_code = status, headers = [], body_text = txt \<rparr>"

definition long_question :: string where
  "long_question = replicate 51 CHR ''x''"

definition example_sources :: "source list" where
  \<comment> \<open>\<^verbatim>\<open>[{"title": "A", "url": "http://x"}, {}]\<close>\<close>
  "example_sources = [[''title'' \<mapsto> ''A'', ''url'' \<mapsto> ''http://x''], Map.empty]"

definition too_many_requests :: exc where
  "too_many_requests =
     \<lparr> str_e = ''received 429 HTTP response'',
       type_name = ''TooManyRequests'',
       response = ResponseObj \<lparr> status_code = 429, headers = [(''retry-after'', ''5'')],
                               body_text = ''Too Many Requests'' \<rparr> \<rparr>"

definition bad_time_filter :: exc where
  \<comment> \<open>An exception without the attribute \<^verbatim>\<open>response\<close>, raised by the call itself.\<close>
  "bad_time_filter =
     \<lparr> str_e = ''time_filter must be one of: all, day, hour, month, week, year'',
       type_name = ''ValueError'',
       response = NoResponseAttr \<rparr>"

definition connection_error :: exc where
  \<comment> \<open>An exception of \<^verbatim>\<open>requests\<close> raised before any response was received: it has
      the attribute \<^verbatim>\<open>response\<close>, and the attribute is \<^verbatim>\<open>None\<close>.\<close>
  "connection_error =
     \<lparr> str_e = ''Connection aborted.'',
       type_name = ''ConnectionError'',
       response = ResponseNone \<rparr>"

definition example_pydantic :: pydantic where
  \<comment> \<open>A validation that accepts an \<^verbatim>\<open>int\<close>, and a \<^verbatim>\<open>float\<close> without a fractional
      part below \<open>2 ^ 63\<close> in size.\<close>
  "example_pydantic =
     \<lparr> int_field =
         (\<lambda>v. case v of
                IntValue i \<Rightarrow> Some i
              | FloatValue m e \<Rightarrow>
                  (if 0 \<le> e \<and> \<bar>m * 2 ^ nat e\<bar> < 2 ^ 63 then Some (m * 2 ^ nat e) else None)),
       validation_error =
         (\<lambda>fields. \<lparr> str_e = ''validation error for RedditPost'',
                      type_name = ''ValidationError'',
                      response = NoResponseAttr \<rparr>) \<rparr>"

definition example_post :: "string \<Rightarrow> exc + comment_node list \<Rightarrow> submission" where
  "example_post name forest =
     \<lparr> sub_title = Inr name, sub_selftext = Inr [], sub_url = Inr ''https://example.org'',
       sub_created_utc = Inr (FloatValue 1700000000 0), sub_num_comments = Inr (IntValue 3),
       sub_permalink = Inr (''/r/test/comments/'' @ name), sub_comments = forest \<rparr>"

definition example_forest :: "comment_node list" where
  "example_forest =
     [Comment ''first'' [Comment ''reply to first'' [], MoreComments], MoreComments,
      Comment ''second'' []]"

definition example_client :: "exc + listing \<Rightarrow> reddit_client" where
  \<comment> \<open>A client whose calls all end as the given one.\<close>
  "example_client call =
     \<lparr> read_only = True, config_client_id = Some ''abc'',
       subreddit_top = (\<lambda>subreddits time_filter limit. call),
       subreddit_search = (\<lambda>subreddits query sort_order limit. call) \<rparr>"

definition example_record :: "string \<Rightarrow> string list \<Rightarrow> reddit_post" where
  "example_record name cs =
     \<lparr> title = name, body = [], url = ''https://example.org'', created_utc = 1700000000,
       num_comments = 3, permalink = ''https://reddit.com/r/test/comments/'' @ name,
       comments = cs \<rparr>"

definition failing_listing :: listing where
  "failing_listing =
     Yields (example_post ''one'' (Inr example_forest))
       (Yields (example_post ''two'' (Inl too_many_requests)) Exhausted)"

definition three_posts :: listing where
  "three_posts =
     Yields (example_post ''one'' (Inr example_forest))
       (Yields (example_post ''two'' (Inr []))
          (Yields (example_post ''three'' (Inr [Comment ''only'' []])) Exhausted))"

section \<open>Properties of the Notion page writer\<close>

lemma render_sources_append:
  "render_sources i srcs acc =
     acc @ concat (map (\<lambda>k. source_line (i + k) (srcs ! k)) [0..<length srcs])"
proof (induction srcs arbitrary: i acc)
  case Nil
  show ?case by simp
next
  case (Cons s srcs)
  have "map (\<lambda>k. source_line (i + k) ((s # srcs) ! k)) [0..<length (s # srcs)] =
        source_line i s # map (\<lambda>k. source_line (Suc i + k) (srcs ! k)) [0..<length srcs]"
    by (simp add: upt_conv_Cons map_Suc_upt [symmetric] del: upt_Suc)
  then show ?case
    using Cons.IH [of "Suc i" "acc @ source_line i s"] by simp
qed

lemma format_sources_enumerate:
  "format_sources srcs =
     concat (map (\<lambda>(i, src). source_line i src) (zip [1..<Suc (length srcs)] srcs))"
proof -
  have "map (\<lambda>(i, src). source_line i src) (zip [1..<Suc (length srcs)] srcs)
      = map (\<lambda>k. source_line (1 + k) (srcs ! k)) [0..<length srcs]"
    by (rule nth_equalityI) (simp_all del: upt_Suc)
  then show ?thesis
    by (simp add: format_sources_def render_sources_append del: upt_Suc)
qed

lemmas str_eval = str_int_def str_nat.simps digit_def

lemma save_example_400:
  "save_reddit_qa_to_notion example_env (reply_with 400 ''bad request'') ''2024-01-01T00:00:00''
      ''q'' ''a'' ''s'' [] =
   (SaveError ''Failed to save to Notion: 400 - bad request'',
    [page_request ''qa-db'' ''secret'' ''2024-01-01T00:00:00'' ''q'' ''a'' ''s'' []])"
  by (simp add: save_reddit_qa_to_notion_def example_env_def reply_with_def py_or_def truthy_def
      str_eval)

lemma save_example_200:
  "fst (save_reddit_qa_to_notion example_env (reply_with 200 ''{}'') ''2024-01-01T00:00:00''
      q ''a'' ''s'' []) =
   SaveSuccess ''Successfully saved Q&A session to Notion'' (echo_question q)"
  by (simp add: save_reddit_qa_to_notion_def example_env_def reply_with_def py_or_def truthy_def)

text \<open>
  Claim C3. \<^verbatim>\<open>save_reddit_qa_to_notion\<close> returns a success result if and only if it has
  sent the page-creation request and the response to it has status code 200. For a
  response with any other status code the result is the error whose message is
  \<^verbatim>\<open>Failed to save to Notion: <status> - <body>\<close>, with the status code in decimal and the
  raw body of the response. When sending the request raises, the exception is caught and
  the result is the error \<^verbatim>\<open>Error saving Q&A to Notion: <str(e)>\<close>. The function is
  total: every run returns a result.
\<close>

theorem save_succeeds_iff_status_200:
  assumes R: "R = save_reddit_qa_to_notion env post now question answer search_query
                    reddit_sources"
  shows "(is_success (fst R) \<longleftrightarrow>
           (\<exists>req resp. snd R = [req] \<and> post req = Inr resp \<and> status_code resp = 200))
       \<and> (\<forall>req resp. snd R = [req] \<and> post req = Inr resp \<and> status_code resp \<noteq> 200 \<longrightarrow>
            fst R = SaveError (''Failed to save to Notion: '' @ str_int (status_code resp) @
                      '' - '' @ body_text resp))
       \<and> (\<forall>req e. snd R = [req] \<and> post req = Inl e \<longrightarrow>
            fst R = SaveError (''Error saving Q&A to Notion: '' @ str_e e))"
  unfolding R save_reddit_qa_to_notion_def Let_def is_success_def
  by (auto split: option.splits sum.splits if_splits)

theorem save_succeeds_iff_status_200_witness:
  "snd (save_reddit_qa_to_notion example_env (reply_with 400 ''bad request'')
      ''2024-01-01T00:00:00'' ''q'' ''a'' ''s'' []) =
     [page_request ''qa-db'' ''secret'' ''2024-01-01T00:00:00'' ''q'' ''a'' ''s'' []]
   \<and> reply_with 400 ''bad request''
       (page_request ''qa-db'' ''secret'' ''2024-01-01T00:00:00'' ''q'' ''a'' ''s'' [])
       = Inr \<lparr> status_code = 400, headers = [], body_text = ''bad request'' \<rparr>
   \<and> fst (save_reddit_qa_to_notion example_env (reply_with 400 ''bad request'')
       ''2024-01-01T00:00:00'' ''q'' ''a'' ''s'' []) =
       SaveError ''Failed to save to Notion: 400 - bad request''
   \<and> \<not> is_success (fst (save_reddit_qa_to_notion example_env (reply_with 400 ''bad request'')
       ''2024-01-01T00:00:00'' ''q'' ''a'' ''s'' []))
   \<and> is_success (fst (save_reddit_qa_to_notion example_env (reply_with 200 ''{}'')
       ''2024-01-01T00:00:00'' ''q'' ''a'' ''s'' []))"
  using save_succeeds_iff_status_200 [OF refl, of example_env "reply_with 400 ''bad request''"
      "''2024-01-01T00:00:00''" "''q''" "''a''" "''s''" "[]"]
  by (simp add: save_example_400 save_example_200 reply_with_def is_success_def)

text \<open>
  Claim C4. When no database identifier or no API token is configured (the variable is
  not set, or set to the empty string, which the source's test \<^verbatim>\<open>if not ...\<close> treats
  alike), \<^verbatim>\<open>save_reddit_qa_to_notion\<close> sends no request and returns the error that names
  the missing variables.
\<close>

theorem missing_configuration_sends_nothing:
  assumes "\<not> truthy (py_or (env ''NOTION_QA_DATABASE_ID'') (env ''NOTION_DATABASE_ID''))
           \<or> \<not> truthy (env ''NOTION_API_TOKEN'')"
  shows "snd (save_reddit_qa_to_notion env post now question answer search_query
                reddit_sources) = []
       \<and> fst (save_reddit_qa_to_notion env post now question answer search_query
                reddit_sources) =
           SaveError
             (if truthy (py_or (env ''NOTION_QA_DATABASE_ID'') (env ''NOTION_DATABASE_ID''))
              then ''NOTION_API_TOKEN environment variable not set''
              else ''NOTION_QA_DATABASE_ID or NOTION_DATABASE_ID environment variable not set'')"
  using assms unfolding save_reddit_qa_to_notion_def Let_def
  by (auto split: option.splits simp: truthy_def)

theorem missing_configuration_sends_nothing_witness:
  "\<not> truthy (py_or (Map.empty ''NOTION_QA_DATABASE_ID'') (Map.empty ''NOTION_DATABASE_ID''))
   \<and> save_reddit_qa_to_notion Map.empty (reply_with 200 ''ok'') ''2024-01-01T00:00:00''
       ''q'' ''a'' ''s'' [] =
     (SaveError ''NOTION_QA_DATABASE_ID or NOTION_DATABASE_ID environment variable not set'',
      [])"
proof -
  have h: "\<not> truthy (py_or (Map.empty ''NOTION_QA_DATABASE_ID'')
                 (Map.empty ''NOTION_DATABASE_ID''))"
    by (simp add: py_or_def truthy_def)
  then have "\<not> truthy (py_or (Map.empty ''NOTION_QA_DATABASE_ID'')
                 (Map.empty ''NOTION_DATABASE_ID''))
           \<or> \<not> truthy (Map.empty ''NOTION_API_TOKEN'')"
    by simp
  from missing_configuration_sends_nothing [OF this, of "reply_with 200 ''ok''"
      "''2024-01-01T00:00:00''" "''q''" "''a''" "''s''" "[]"] h
  show ?thesis
    by (simp add: prod_eq_iff)
qed

text \<open>
  Claim C5. When the configuration is complete, the request that
  \<^verbatim>\<open>save_reddit_qa_to_notion\<close> sends carries the sources block under
  \<^verbatim>\<open>Reddit Sources\<close>; without the configuration no request is sent. The block is the
  concatenation, in input order, of one line per source; the line of the \<open>i\<close>-th source
  (counted from 1) is \<^verbatim>\<open>i. [title](url)\<close> followed by a newline, with \<^verbatim>\<open>Untitled\<close>
  for a source without the key \<^verbatim>\<open>title\<close> and \<^verbatim>\<open>#\<close> for a source without the key
  \<^verbatim>\<open>url\<close>. For the two sources \<^verbatim>\<open>{"title": "A", "url": "http://x"}\<close> and
  \<^verbatim>\<open>{}\<close> the request carries the lines \<^verbatim>\<open>1. [A](http://x)\<close> and
  \<^verbatim>\<open>2. [Untitled](#)\<close>.
\<close>

theorem sources_block_numbered_lines:
  "map reddit_sources_rich_text
     (snd (save_reddit_qa_to_notion env post now question answer search_query reddit_sources)) =
     (if truthy (py_or (env ''NOTION_QA_DATABASE_ID'') (env ''NOTION_DATABASE_ID''))
         \<and> truthy (env ''NOTION_API_TOKEN'')
      then [format_sources reddit_sources] else [])
   \<and> format_sources reddit_sources =
     concat (map (\<lambda>(i, src). source_line i src)
               (zip [1..<Suc (length reddit_sources)] reddit_sources))
   \<and> source_line i src =
       str_nat i @ ''. ['' @ (case src ''title'' of None \<Rightarrow> ''Untitled'' | Some t \<Rightarrow> t) @
       '']('' @ (case src ''url'' of None \<Rightarrow> ''#'' | Some u \<Rightarrow> u) @ '')'' @ [newline]
   \<and> map reddit_sources_rich_text
       (snd (save_reddit_qa_to_notion example_env (reply_with 200 ''{}'') ''2024-01-01T00:00:00''
          ''q'' ''a'' ''s'' example_sources)) =
       [''1. [A](http://x)'' @ [newline] @ ''2. [Untitled](#)'' @ [newline]]"
proof (intro conjI)
  show "map reddit_sources_rich_text
     (snd (save_reddit_qa_to_notion env post now question answer search_query reddit_sources)) =
     (if truthy (py_or (env ''NOTION_QA_DATABASE_ID'') (env ''NOTION_DATABASE_ID''))
         \<and> truthy (env ''NOTION_API_TOKEN'')
      then [format_sources reddit_sources] else [])"
    unfolding save_reddit_qa_to_notion_def Let_def
    by (auto split: option.splits sum.splits simp: truthy_def page_request_def)
  show "format_sources reddit_sources =
     concat (map (\<lambda>(i, src). source_line i src)
               (zip [1..<Suc (length reddit_sources)] reddit_sources))"
    by (rule format_sources_enumerate)
  show "source_line i src =
       str_nat i @ ''. ['' @ (case src ''title'' of None \<Rightarrow> ''Untitled'' | Some t \<Rightarrow> t) @
       '']('' @ (case src ''url'' of None \<Rightarrow> ''#'' | Some u \<Rightarrow> u) @ '')'' @ [newline]"
    by (simp add: source_line_def dict_get_def)
  show "map reddit_sources_rich_text
       (snd (save_reddit_qa_to_notion example_env (reply_with 200 ''{}'') ''2024-01-01T00:00:00''
          ''q'' ''a'' ''s'' example_sources)) =
       [''1. [A](http://x)'' @ [newline] @ ''2. [Untitled](#)'' @ [newline]]"
    by (simp add: save_reddit_qa_to_notion_def example_env_def reply_with_def py_or_def
        truthy_def page_request_def example_sources_def format_sources_def source_line_def
        dict_get_def str_eval)
qed

text \<open>
  Claim C9. On success the question of the result is the input question when it has at
  most 50 characters, and its first 50 characters followed by \<^verbatim>\<open>...\<close> otherwise; for a
  question of 51 characters the echoed question differs from the input.
\<close>

theorem success_echoes_truncated_question:
  assumes "is_success (fst (save_reddit_qa_to_notion env post now question answer search_query
             reddit_sources))"
  shows "fst (save_reddit_qa_to_notion env post now question answer search_query
                reddit_sources) =
           SaveSuccess ''Successfully saved Q&A session to Notion''
             (if length question \<le> 50 then question else take 50 question @ ''...'')"
  using assms unfolding save_reddit_qa_to_notion_def Let_def is_success_def echo_question_def
  by (auto split: option.splits sum.splits if_splits)

theorem success_echoes_truncated_question_witness:
  "is_success (fst (save_reddit_qa_to_notion example_env (reply_with 200 ''{}'')
      ''2024-01-01T00:00:00'' long_question ''a'' ''s'' []))
   \<and> fst (save_reddit_qa_to_notion example_env (reply_with 200 ''{}'')
      ''2024-01-01T00:00:00'' long_question ''a'' ''s'' []) =
     SaveSuccess ''Successfully saved Q&A session to Notion'' (replicate 50 CHR ''x'' @ ''...'')
   \<and> replicate 50 CHR ''x'' @ ''...'' \<noteq> long_question"
proof -
  have s: "is_success (fst (save_reddit_qa_to_notion example_env (reply_with 200 ''{}'')
      ''2024-01-01T00:00:00'' long_question ''a'' ''s'' []))"
    by (simp add: save_example_200 is_success_def)
  have "replicate 50 CHR ''x'' @ ''...'' \<noteq> long_question"
    by (simp add: long_question_def list_eq_iff_nth_eq)
  with success_echoes_truncated_question [OF s] s show ?thesis
    by (simp add: long_question_def)
qed

text \<open>
  Claim C10. The database identifier of the request is the value of
  \<^verbatim>\<open>NOTION_QA_DATABASE_ID\<close> when that variable is configured (set and not empty), and the
  value of \<^verbatim>\<open>NOTION_DATABASE_ID\<close> only when it is not. The database identifier is checked
  first: when neither of the two variables is configured, the error names the database
  variables, whatever the token variable holds.
\<close>

theorem database_id_preference_and_check_order:
  "(\<forall>db tok. env ''NOTION_QA_DATABASE_ID'' = Some db \<and> db \<noteq> [] \<and>
        env ''NOTION_API_TOKEN'' = Some tok \<and> tok \<noteq> [] \<longrightarrow>
      map parent_database_id
        (snd (save_reddit_qa_to_notion env post now question answer search_query
                reddit_sources)) = [db])
   \<and> (\<forall>db tok. \<not> truthy (env ''NOTION_QA_DATABASE_ID'') \<and>
        env ''NOTION_DATABASE_ID'' = Some db \<and> db \<noteq> [] \<and>
        env ''NOTION_API_TOKEN'' = Some tok \<and> tok \<noteq> [] \<longrightarrow>
      map parent_database_id
        (snd (save_reddit_qa_to_notion env post now question answer search_query
                reddit_sources)) = [db])
   \<and> (\<not> truthy (env ''NOTION_QA_DATABASE_ID'') \<and> \<not> truthy (env ''NOTION_DATABASE_ID'') \<longrightarrow>
      save_reddit_qa_to_notion env post now question answer search_query reddit_sources =
        (SaveError ''NOTION_QA_DATABASE_ID or NOTION_DATABASE_ID environment variable not set'',
         []))"
  unfolding save_reddit_qa_to_notion_def Let_def
  by (auto split: option.splits sum.splits simp: truthy_def py_or_def page_request_def)

theorem database_id_preference_and_check_order_witness:
  "map parent_database_id
     (snd (save_reddit_qa_to_notion example_env (reply_with 200 ''{}'') ''2024-01-01T00:00:00''
        ''q'' ''a'' ''s'' [])) = [''qa-db'']
   \<and> map parent_database_id
     (snd (save_reddit_qa_to_notion fallback_env (reply_with 200 ''{}'') ''2024-01-01T00:00:00''
        ''q'' ''a'' ''s'' [])) = [''main-db'']
   \<and> save_reddit_qa_to_notion Map.empty (reply_with 200 ''{}'') ''2024-01-01T00:00:00''
        ''q'' ''a'' ''s'' [] =
      (SaveError ''NOTION_QA_DATABASE_ID or NOTION_DATABASE_ID environment variable not set'',
       [])"
  using database_id_preference_and_check_order [of example_env "reply_with 200 ''{}''"
      "''2024-01-01T00:00:00''" "''q''" "''a''" "''s''" "[]"]
    database_id_preference_and_check_order [of fallback_env "reply_with 200 ''{}''"
      "''2024-01-01T00:00:00''" "''q''" "''a''" "''s''" "[]"]
    database_id_preference_and_check_order [of Map.empty "reply_with 200 ''{}''"
      "''2024-01-01T00:00:00''" "''q''" "''a''" "''s''" "[]"]
  by (simp add: example_env_def fallback_env_def truthy_def)

section \<open>Properties of the bearer token verifier\<close>

text \<open>
  Claim C8. \<^verbatim>\<open>verify_token\<close> returns an access token if and only if a secret is
  configured (\<^verbatim>\<open>MCP_API_KEY\<close> is set and not empty, the source's test
  \<^verbatim>\<open>not self.valid_token\<close>) and the presented token is equal to it; the access token
  then carries the presented token. In every other case it returns \<^verbatim>\<open>None\<close>.
\<close>

theorem verify_token_accepts_iff_equal_secret:
  "((\<exists>a. verify_token valid_token tok = Some a) \<longleftrightarrow>
      truthy valid_token \<and> valid_token = Some tok)
   \<and> verify_token valid_token tok =
     (if truthy valid_token \<and> valid_token = Some tok
      then Some \<lparr> token = tok, client_id = ''single_user'',
                  scopes = [''reddit:read'', ''notion:write''], expires_at = None \<rparr>
      else None)"
  by (auto simp: verify_token_def)

theorem verify_token_accepts_iff_equal_secret_witness:
  "verify_token (SimpleTokenVerifier_init [''MCP_API_KEY'' \<mapsto> ''s3cret'']) ''s3cret'' =
     Some \<lparr> token = ''s3cret'', client_id = ''single_user'',
            scopes = [''reddit:read'', ''notion:write''], expires_at = None \<rparr>
   \<and> verify_token (SimpleTokenVerifier_init [''MCP_API_KEY'' \<mapsto> ''s3cret'']) ''s3creT'' = None
   \<and> verify_token (SimpleTokenVerifier_init Map.empty) ''s3cret'' = None"
  using verify_token_accepts_iff_equal_secret [of "Some ''s3cret''" "''s3cret''"]
    verify_token_accepts_iff_equal_secret [of "Some ''s3cret''" "''s3creT''"]
    verify_token_accepts_iff_equal_secret [of None "''s3cret''"]
  by (simp add: SimpleTokenVerifier_init_def truthy_def)

text \<open>
  A secret that is set to the empty string counts as not configured: no token is accepted,
  the empty one included.
\<close>

lemma empty_secret_accepts_nothing: "verify_token (Some []) tok = None"
  by (simp add: verify_token_def truthy_def)


section \<open>Properties of the Reddit query client\<close>

lemma and_then_Inl [simp]: "and_then (Inl e) f = Inl e"
  by (simp add: and_then_def)

lemma and_then_Inr [simp]: "and_then (Inr v) f = f v"
  by (simp add: and_then_def)

lemma and_then_eq_Inr: "and_then r f = Inr y \<longleftrightarrow> (\<exists>v. r = Inr v \<and> f v = Inr y)"
  by (cases r) simp_all

lemma and_then_eq_Inl:
  "and_then r f = Inl e \<longleftrightarrow> r = Inl e \<or> (\<exists>v. r = Inr v \<and> f v = Inl e)"
  by (cases r) auto

subsection \<open>Reading and validating a post\<close>

lemma RedditPost_Inr:
  "RedditPost pyd t b u c n p cs = Inr d \<longleftrightarrow>
     (\<exists>c' n'. int_field pyd c = Some c' \<and> int_field pyd n = Some n' \<and>
        d = \<lparr> title = t, body = b, url = u, created_utc = c', num_comments = n',
              permalink = p, comments = cs \<rparr>)"
  by (auto simp: RedditPost_def split: option.splits)

lemma RedditPost_Inl:
  "RedditPost pyd t b u c n p cs = Inl e \<longleftrightarrow>
     rejected pyd ''created_utc'' (Inr c) @ rejected pyd ''num_comments'' (Inr n) \<noteq> [] \<and>
     e = validation_error pyd
           (rejected pyd ''created_utc'' (Inr c) @ rejected pyd ''num_comments'' (Inr n))"
  by (auto simp: RedditPost_def rejected_def split: option.splits)

lemma new_post_data_raises:
  "new_post_data pyd p = Inl e \<longleftrightarrow>
     first_raised (attribute_reads p) = Some e
     \<or> (first_raised (attribute_reads p) = None \<and> rejected_fields pyd p \<noteq> [] \<and>
        e = validation_error pyd (rejected_fields pyd p))"
proof (cases "sub_title p")
  case (Inl a)
  then show ?thesis by (simp add: new_post_data_def attribute_reads_def raised_by_def)
next
  case t: (Inr t)
  show ?thesis
  proof (cases "sub_selftext p")
    case (Inl a)
    with t show ?thesis by (simp add: new_post_data_def attribute_reads_def raised_by_def)
  next
    case s: (Inr s)
    show ?thesis
    proof (cases "sub_url p")
      case (Inl a)
      with t s show ?thesis by (simp add: new_post_data_def attribute_reads_def raised_by_def)
    next
      case u: (Inr u)
      show ?thesis
      proof (cases "sub_created_utc p")
        case (Inl a)
        with t s u show ?thesis
          by (simp add: new_post_data_def attribute_reads_def raised_by_def)
      next
        case c: (Inr c)
        show ?thesis
        proof (cases "sub_num_comments p")
          case (Inl a)
          with t s u c show ?thesis
            by (simp add: new_post_data_def attribute_reads_def raised_by_def)
        next
          case n: (Inr n)
          show ?thesis
          proof (cases "sub_permalink p")
            case (Inl a)
            with t s u c n show ?thesis
              by (simp add: new_post_data_def attribute_reads_def raised_by_def)
          next
            case (Inr l)
            with t s u c n show ?thesis
              by (simp add: new_post_data_def attribute_reads_def raised_by_def
                  RedditPost_Inl rejected_fields_def)
          qed
        qed
      qed
    qed
  qed
qed

lemma new_post_data_comments: "new_post_data pyd p = Inr d \<Longrightarrow> comments d = []"
  by (auto simp: new_post_data_def and_then_eq_Inr RedditPost_Inr)

subsection \<open>The comment tree\<close>

lemma no_placeholder_drop_more: "list_all no_placeholder (drop_more c)"
proof (induction c)
  case (Comment b rs)
  then show ?case by (simp add: list_all_iff)
next
  case MoreComments
  show ?case by simp
qed

lemma no_placeholder_replace_more: "list_all no_placeholder (replace_more forest)"
  using no_placeholder_drop_more by (simp add: replace_more_def list_all_iff)

lemma no_placeholder_replies: "no_placeholder c \<Longrightarrow> list_all no_placeholder (replies_of c)"
  by (cases c) simp_all

lemma no_placeholder_comments_list:
  "list_all no_placeholder queue \<Longrightarrow> list_all no_placeholder (comments_list queue)"
proof (induction queue rule: comments_list.induct)
  case 1
  show ?case by simp
next
  case (2 c queue)
  then show ?case by (simp add: no_placeholder_replies)
qed

lemma no_placeholder_py_prefix:
  "list_all no_placeholder cs \<Longrightarrow> list_all no_placeholder (py_prefix n cs)"
  by (auto simp: py_prefix_def list_all_iff dest: in_set_takeD)

lemma bodies_of_append: "bodies_of (xs @ ys) = bodies_of xs @ bodies_of ys"
  by (induction xs rule: bodies_of.induct) simp_all

lemma length_bodies_of: "list_all no_placeholder cs \<Longrightarrow> length (bodies_of cs) = length cs"
  by (induction cs rule: bodies_of.induct) simp_all

lemma bodies_of_take:
  "list_all no_placeholder cs \<Longrightarrow> bodies_of (take n cs) = take n (bodies_of cs)"
proof (induction cs arbitrary: n rule: bodies_of.induct)
  case 1
  show ?case by simp
next
  case (2 b rs cs)
  then show ?case by (cases n) simp_all
next
  case (3 cs)
  then show ?case by simp
qed

lemma bodies_of_py_prefix:
  "list_all no_placeholder cs \<Longrightarrow> bodies_of (py_prefix n cs) = py_prefix n (bodies_of cs)"
  by (simp add: py_prefix_def bodies_of_take length_bodies_of)

lemma bodies_of_drop_more: "bodies_of (drop_more c @ cs) = bodies_of (c # cs)"
  by (cases c) simp_all

lemma bodies_of_replace_more: "bodies_of (replace_more forest) = bodies_of forest"
proof (induction forest)
  case Nil
  show ?case by (simp add: replace_more_def)
next
  case (Cons c forest)
  have "bodies_of (replace_more (c # forest)) = bodies_of (drop_more c @ replace_more forest)"
    by (simp add: replace_more_def)
  also have "\<dots> = bodies_of (drop_more c) @ bodies_of (replace_more forest)"
    by (rule bodies_of_append)
  also have "\<dots> = bodies_of (drop_more c) @ bodies_of forest"
    by (simp add: Cons.IH)
  also have "\<dots> = bodies_of (c # forest)"
    using bodies_of_drop_more [of c forest] by (simp add: bodies_of_append)
  finally show ?case .
qed

lemma comments_list_append:
  "comments_list (xs @ ys) = xs @ comments_list (ys @ concat (map replies_of xs))"
  by (induction xs arbitrary: ys) simp_all

lemma comments_list_levels:
  "comments_list xs = xs @ comments_list (concat (map replies_of xs))"
  using comments_list_append [of xs "[]"] by simp

lemma append_bodies_no_placeholder:
  "list_all no_placeholder cs \<Longrightarrow>
     append_bodies cs d = Inr (d\<lparr>comments := comments d @ bodies_of cs\<rparr>)"
proof (induction cs arbitrary: d rule: bodies_of.induct)
  case 1
  show ?case by simp
next
  case (2 b rs cs)
  then show ?case by simp
next
  case (3 cs)
  then show ?case by simp
qed

subsection \<open>The record of a post\<close>

lemma post_record_eq:
  "post_record pyd cl p =
     and_then (new_post_data pyd p) (\<lambda>d.
     and_then (sub_comments p) (\<lambda>forest.
       Inr (d\<lparr>comments := comments d @
              py_prefix cl (bodies_of (comments_list (replace_more forest)))\<rparr>)))"
proof -
  have "append_bodies (py_prefix cl (comments_list (replace_more forest))) d =
        Inr (d\<lparr>comments := comments d @
              py_prefix cl (bodies_of (comments_list (replace_more forest)))\<rparr>)" for forest d
    using no_placeholder_comments_list [OF no_placeholder_replace_more, of forest]
    by (simp add: append_bodies_no_placeholder no_placeholder_py_prefix bodies_of_py_prefix)
  then show ?thesis
    by (simp add: post_record_def)
qed

lemma post_record_Inr:
  "post_record pyd cl p = Inr d \<longleftrightarrow>
     (\<exists>d0 forest. new_post_data pyd p = Inr d0 \<and> sub_comments p = Inr forest \<and>
        d = d0\<lparr>comments := py_prefix cl (bodies_of (comments_list (replace_more forest)))\<rparr>)"
  by (auto simp: post_record_eq and_then_eq_Inr new_post_data_comments)

lemma post_record_Inl:
  "post_record pyd cl p = Inl e \<longleftrightarrow>
     new_post_data pyd p = Inl e
     \<or> (\<exists>d0. new_post_data pyd p = Inr d0 \<and> sub_comments p = Inl e)"
  by (auto simp: post_record_eq and_then_eq_Inl)

lemma new_post_data_returns:
  "(\<exists>d. new_post_data pyd p = Inr d) \<longleftrightarrow>
     first_raised (attribute_reads p) = None \<and> rejected_fields pyd p = []"
proof -
  have "(\<exists>d. new_post_data pyd p = Inr d) \<longleftrightarrow> \<not> (\<exists>e. new_post_data pyd p = Inl e)"
    by (cases "new_post_data pyd p") simp_all
  also have "\<dots> \<longleftrightarrow> first_raised (attribute_reads p) = None \<and> rejected_fields pyd p = []"
  proof (cases "first_raised (attribute_reads p)")
    case None
    then show ?thesis by (simp add: new_post_data_raises)
  next
    case (Some a)
    then show ?thesis by (auto simp: new_post_data_raises)
  qed
  finally show ?thesis .
qed

lemma post_record_raises:
  "post_record pyd cl p = Inl e \<longleftrightarrow> post_raises pyd p = Some e"
proof (cases "first_raised (attribute_reads p)")
  case (Some a)
  then show ?thesis
    using new_post_data_returns [of pyd p]
    by (auto simp: post_record_Inl post_raises_def new_post_data_raises)
next
  case None
  show ?thesis
  proof (cases "rejected_fields pyd p")
    case Nil
    with None obtain d0 where "new_post_data pyd p = Inr d0"
      using new_post_data_returns [of pyd p] by blast
    with None Nil show ?thesis
      by (cases "sub_comments p") (simp_all add: post_record_Inl post_raises_def raised_by_def)
  next
    case (Cons r rs)
    with None have "new_post_data pyd p = Inl (validation_error pyd (r # rs))"
      by (simp add: new_post_data_raises)
    with None Cons show ?thesis
      by (auto simp: post_record_Inl post_raises_def)
  qed
qed

lemma post_record_returns:
  "post_raises pyd p = None \<longleftrightarrow> (\<exists>d. post_record pyd cl p = Inr d)"
proof -
  have "(\<exists>d. post_record pyd cl p = Inr d) \<longleftrightarrow> \<not> (\<exists>e. post_record pyd cl p = Inl e)"
    by (cases "post_record pyd cl p") simp_all
  then show ?thesis
    by (simp add: post_record_raises)
qed

lemma post_raises_cases:
  "post_raises pyd p = Some e \<longleftrightarrow>
     first_raised (attribute_reads p) = Some e
     \<or> (first_raised (attribute_reads p) = None \<and> rejected_fields pyd p \<noteq> [] \<and>
        e = validation_error pyd (rejected_fields pyd p))
     \<or> (first_raised (attribute_reads p) = None \<and> rejected_fields pyd p = [] \<and>
        sub_comments p = Inl e)"
  by (cases "sub_comments p")
     (auto simp: post_raises_def raised_by_def split: option.splits list.splits)

lemma post_record_first_comments:
  "post_record pyd cl p = Inr d \<Longrightarrow> first_comments cl p d"
  by (auto simp: post_record_Inr first_comments_def)

lemma post_record_top_level_first:
  assumes "post_record pyd cl p = Inr d"
  shows "top_level_first cl p d"
proof -
  from assms obtain forest where f: "sub_comments p = Inr forest"
    and d: "comments d = py_prefix cl (bodies_of (comments_list (replace_more forest)))"
    by (auto simp: post_record_Inr)
  have "bodies_of (comments_list (replace_more forest)) =
        bodies_of (replace_more forest) @
        bodies_of (comments_list (concat (map replies_of (replace_more forest))))"
    using comments_list_levels [of "replace_more forest"] bodies_of_append by metis
  with f d show ?thesis
    by (simp add: top_level_first_def bodies_of_replace_more)
qed

lemma top_level_only:
  assumes "top_level_first cl p d" and "sub_comments p = Inr forest"
    and "0 \<le> cl" and "nat cl \<le> length (bodies_of forest)"
  shows "comments d = take (nat cl) (bodies_of forest)"
  using assms by (simp add: top_level_first_def py_prefix_def)

subsection \<open>The loop over the listing\<close>

lemma yielded_up_to: "yielded (up_to n l) = take n (yielded l)"
  by (induction n l rule: up_to.induct) simp_all

lemma yielded_listing_generator:
  "yielded (listing_generator limit l) = take (nat limit) (yielded l)"
  by (simp add: listing_generator_def yielded_up_to)

lemma collect_posts_Inr:
  "collect_posts pyd cl l acc = Inr posts \<Longrightarrow>
     \<exists>new. posts = acc @ new \<and>
       list_all2 (\<lambda>p d. post_record pyd cl p = Inr d) (yielded l) new"
proof (induction pyd cl l acc arbitrary: posts rule: collect_posts.induct)
  case (1 pyd cl acc)
  then show ?case by simp
next
  case (2 pyd cl e acc)
  then show ?case by simp
next
  case (3 pyd cl p rest acc)
  from "3.prems" obtain d where d: "post_record pyd cl p = Inr d"
    and rest: "collect_posts pyd cl rest (acc @ [d]) = Inr posts"
    by (auto simp: and_then_eq_Inr)
  from "3.IH" [OF rest] obtain new where
    "posts = (acc @ [d]) @ new"
    "list_all2 (\<lambda>p d. post_record pyd cl p = Inr d) (yielded rest) new"
    by blast
  with d show ?case by simp
qed

lemma collect_posts_yields_then:
  "\<forall>p \<in> set ps. post_raises pyd p = None \<Longrightarrow>
     \<exists>ds. collect_posts pyd cl (yields_then ps tail) acc = collect_posts pyd cl tail (acc @ ds)"
proof (induction ps arbitrary: acc)
  case Nil
  have "collect_posts pyd cl (yields_then [] tail) acc = collect_posts pyd cl tail (acc @ [])"
    by simp
  then show ?case by blast
next
  case (Cons p ps)
  then obtain d where d: "post_record pyd cl p = Inr d"
    using post_record_returns [of pyd p cl] by auto
  from Cons obtain ds where
    "collect_posts pyd cl (yields_then ps tail) (acc @ [d]) =
     collect_posts pyd cl tail ((acc @ [d]) @ ds)"
    by (metis list.set_intros(2))
  with d have "collect_posts pyd cl (yields_then (p # ps) tail) acc =
       collect_posts pyd cl tail (acc @ (d # ds))"
    by simp
  then show ?case by blast
qed

lemma collect_posts_raises:
  assumes "\<forall>p \<in> set ps. post_raises pyd p = None"
    and "tail = Raises e \<or> (\<exists>p rest. tail = Yields p rest \<and> post_raises pyd p = Some e)"
  shows "collect_posts pyd cl (yields_then ps tail) acc = Inl e"
proof -
  from collect_posts_yields_then [OF assms(1)] obtain ds where
    "collect_posts pyd cl (yields_then ps tail) acc = collect_posts pyd cl tail (acc @ ds)"
    by blast
  moreover from assms(2) have "collect_posts pyd cl tail (acc @ ds) = Inl e"
  proof
    assume "tail = Raises e"
    then show ?thesis by simp
  next
    assume "\<exists>p rest. tail = Yields p rest \<and> post_raises pyd p = Some e"
    then obtain p rest where "tail = Yields p rest" and "post_record pyd cl p = Inl e"
      by (auto simp: post_record_raises)
    then show ?thesis by simp
  qed
  ultimately show ?thesis by simp
qed

lemma try_block_raises:
  assumes "\<forall>p \<in> set ps. post_raises pyd p = None"
    and "tail = Raises e \<or> (\<exists>p rest. tail = Yields p rest \<and> post_raises pyd p = Some e)"
    and "call = Inl e \<or> (\<exists>l. call = Inr l \<and> listing_generator limit l = yields_then ps tail)"
  shows "try_block pyd limit cl call = Inl e"
  using assms(3) collect_posts_raises [OF assms(1,2), of cl "[]"]
  by (auto simp: try_block_def)

lemma try_block_returns:
  assumes "try_block pyd limit cl call = Inr posts"
  shows "\<exists>l. call = Inr l \<and>
    list_all2 (\<lambda>p d. post_record pyd cl p = Inr d) (take (nat limit) (yielded l)) posts"
proof -
  from assms obtain l where l: "call = Inr l"
    and c: "collect_posts pyd cl (listing_generator limit l) [] = Inr posts"
    by (auto simp: try_block_def and_then_eq_Inr)
  from collect_posts_Inr [OF c] l show ?thesis
    by (simp add: yielded_listing_generator)
qed

subsection \<open>The handlers\<close>

lemma response_details_append:
  assumes "''http_status'' \<notin> fst ` set d" "''response_headers'' \<notin> fst ` set d"
    "''response_body'' \<notin> fst ` set d" and "response e \<noteq> ResponseNone"
  shows "response_details e d = Inr (d @ http_details e)"
proof -
  have set_fresh: "dict_set d k v = d @ [(k, v)]" if "k \<notin> fst ` set d" for d :: py_dict and k v
    using that by (induction d) auto
  show ?thesis
    using assms
    by (cases "response e") (simp_all add: response_details_def http_details_def set_fresh)
qed

lemma response_details_none:
  "response e = ResponseNone \<Longrightarrow>
     response_details e d = Inl (attribute_error ''NoneType'' ''status_code'')"
  by (simp add: response_details_def)

lemma handlers_return_one_error:
  "top_posts_handler reddit subreddits time_filter e = Inr items \<Longrightarrow> \<exists>err. items = [ErrorDict err]"
  "search_posts_handler reddit subreddits e = Inr items \<Longrightarrow> \<exists>err. items = [ErrorDict err]"
  "search_reddit_handler reddit e = Inr items \<Longrightarrow> \<exists>err. items = [ErrorDict err]"
  by (auto simp: top_posts_handler_def search_posts_handler_def search_reddit_handler_def
      and_then_eq_Inr)

lemma returned_posts:
  assumes "(case try_block pyd limit cl call of
              Inr posts \<Rightarrow> Inr (map PostDict posts) | Inl e \<Rightarrow> h e) = Inr (map PostDict posts)"
    and "\<And>e items. h e = Inr items \<Longrightarrow> \<exists>err. items = [ErrorDict err]"
  shows "try_block pyd limit cl call = Inr posts"
proof (cases "try_block pyd limit cl call")
  case (Inl e)
  with assms(1) have "h e = Inr (map PostDict posts)" by simp
  from assms(2) [OF this] obtain err where "map PostDict posts = [ErrorDict err]"
    by blast
  then have False
    by (cases posts) auto
  then show ?thesis ..
next
  case (Inr posts')
  with assms(1) have "map PostDict posts' = map PostDict posts" by simp
  then have "posts' = posts"
    by (simp add: inj_map_eq_map inj_on_def)
  with Inr show ?thesis by simp
qed

subsection \<open>Evaluation of the examples\<close>

lemma int_field_examples:
  "int_field example_pydantic (FloatValue 1700000000 0) = Some 1700000000"
  "int_field example_pydantic (IntValue 3) = Some 3"
  by (simp_all add: example_pydantic_def)

lemma new_post_data_example:
  "new_post_data example_pydantic (example_post name forest) = Inr (example_record name [])"
  by (simp add: new_post_data_def example_post_def example_record_def RedditPost_def
      int_field_examples)

lemma post_raises_example:
  "post_raises example_pydantic (example_post name forest) = raised_by forest"
  by (simp add: post_raises_def attribute_reads_def raised_by_def rejected_fields_def
      rejected_def example_post_def int_field_examples)

lemma flattened_example:
  "comments_list (replace_more example_forest) =
     [Comment ''first'' [Comment ''reply to first'' []], Comment ''second'' [],
      Comment ''reply to first'' []]"
  by (simp add: example_forest_def replace_more_def)

lemma post_record_example:
  "post_record example_pydantic 5 (example_post ''one'' (Inr example_forest)) =
     Inr (example_record ''one'' [''first'', ''second'', ''reply to first''])"
  by (simp add: post_record_eq new_post_data_example)
     (simp add: example_post_def example_record_def flattened_example py_prefix_def)

lemma post_record_example_1:
  "post_record example_pydantic 1 (example_post ''one'' (Inr example_forest)) =
     Inr (example_record ''one'' [''first''])"
  by (simp add: post_record_eq new_post_data_example)
     (simp add: example_post_def example_record_def flattened_example py_prefix_def)

lemma post_record_example_empty:
  "post_record example_pydantic 1 (example_post ''two'' (Inr [])) =
     Inr (example_record ''two'' [])"
  by (simp add: post_record_eq new_post_data_example)
     (simp add: example_post_def example_record_def replace_more_def py_prefix_def)

lemma http_details_429:
  "http_details too_many_requests =
     [(''http_status'', PyInt 429), (''response_headers'', PyDict [(''retry-after'', ''5'')]),
      (''response_body'', PyStr ''Too Many Requests'')]"
  by (simp add: http_details_def too_many_requests_def)

lemma three_posts_limit_2:
  "get_top_subreddit_posts example_pydantic (example_client (Inr three_posts)) ''python'' 2 1
      ''week'' =
     Inr (map PostDict [example_record ''one'' [''first''], example_record ''two'' []])"
  by (simp add: get_top_subreddit_posts_def try_block_def listing_generator_def
      example_client_def three_posts_def eval_nat_numeral post_record_example_1
      post_record_example_empty)

lemma handlers_raise_for_none:
  assumes "response e = ResponseNone"
  shows "top_posts_handler reddit subreddits time_filter e =
           Inl (attribute_error ''NoneType'' ''status_code'')"
    and "search_posts_handler reddit subreddits e =
           Inl (attribute_error ''NoneType'' ''status_code'')"
    and "search_reddit_handler reddit e = Inl (attribute_error ''NoneType'' ''status_code'')"
  using assms
  by (simp_all add: top_posts_handler_def search_posts_handler_def search_reddit_handler_def
      response_details_none)

text \<open>
  Claim C1. Each handler tests \<^verbatim>\<open>hasattr(e, 'response')\<close> and then reads
  \<^verbatim>\<open>e.response.status_code\<close>. For an exception whose attribute \<^verbatim>\<open>response\<close> is
  \<^verbatim>\<open>None\<close> that read raises \<^verbatim>\<open>AttributeError\<close> inside the handler: the operation
  returns no list, and the \<^verbatim>\<open>AttributeError\<close> reaches the caller. Here the listing of
  each of the three operations raises such an exception.
\<close>

theorem exception_with_none_response_propagates:
  "get_top_subreddit_posts example_pydantic (example_client (Inr (Raises connection_error)))
      ''python'' 5 5 ''week'' = Inl (attribute_error ''NoneType'' ''status_code'')
   \<and> search_posts example_pydantic (example_client (Inr (Raises connection_error)))
      ''python'' ''langchain'' 5 5 ''relevance'' = Inl (attribute_error ''NoneType'' ''status_code'')
   \<and> search_reddit example_pydantic (example_client (Inr (Raises connection_error)))
      ''langchain'' 5 5 ''relevance'' = Inl (attribute_error ''NoneType'' ''status_code'')
   \<and> str_e (attribute_error ''NoneType'' ''status_code'') =
       [quote] @ ''NoneType'' @ [quote] @ '' object has no attribute '' @
       [quote] @ ''status_code'' @ [quote]"
proof -
  have "response connection_error = ResponseNone"
    by (simp add: connection_error_def)
  note h = handlers_raise_for_none [OF this]
  have "try_block example_pydantic 5 5 (Inr (Raises connection_error)) = Inl connection_error"
    by (simp add: try_block_def listing_generator_def eval_nat_numeral)
  then show ?thesis
    by (simp add: get_top_subreddit_posts_def search_posts_def search_reddit_def
        example_client_def h attribute_error_def)
qed

lemma top_posts_record:
  assumes "response e \<noteq> ResponseNone"
  shows "top_posts_handler reddit subreddits time_filter e =
       Inr [ErrorDict
          \<lparr> error_details =
              [(''error'', PyStr (str_e e)),
               (''error_type'', PyStr (type_name e)),
               (''subreddits'', PyStr subreddits),
               (''time_filter'', PyStr time_filter),
               (''reddit_read_only'', PyBool (read_only reddit)),
               (''client_id_exists'', PyBool (truthy (config_client_id reddit)))]
              @ http_details e,
            message = ''Top posts retrieval failed for r/'' @ subreddits @ '': '' @ str_e e,
            debug_info = ''Check error_details for Reddit API response information'' \<rparr>]"
  using assms by (simp add: top_posts_handler_def response_details_append)

lemma search_posts_record:
  assumes "response e \<noteq> ResponseNone"
  shows "search_posts_handler reddit subreddits e =
       Inr [ErrorDict
          \<lparr> error_details =
              [(''error'', PyStr (str_e e)),
               (''error_type'', PyStr (type_name e)),
               (''subreddits'', PyStr subreddits),
               (''reddit_read_only'', PyBool (read_only reddit)),
               (''client_id_exists'', PyBool (truthy (config_client_id reddit)))]
              @ http_details e,
            message = ''Subreddit search failed for r/'' @ subreddits @ '': '' @ str_e e,
            debug_info = ''Check error_details for Reddit API response information'' \<rparr>]"
  using assms by (simp add: search_posts_handler_def response_details_append)

lemma search_reddit_record:
  assumes "response e \<noteq> ResponseNone"
  shows "search_reddit_handler reddit e =
       Inr [ErrorDict
          \<lparr> error_details =
              [(''error'', PyStr (str_e e)),
               (''error_type'', PyStr (type_name e)),
               (''reddit_read_only'', PyBool (read_only reddit)),
               (''client_id_exists'', PyBool (truthy (config_client_id reddit)))]
              @ http_details e,
            message = ''Reddit search failed: '' @ str_e e,
            debug_info = ''Check error_details for Reddit API response information'' \<rparr>]"
  using assms by (simp add: search_reddit_handler_def response_details_append)

text \<open>
  Claim C6, as the code has it. Let the \<^verbatim>\<open>try\<close> block raise \<open>e\<close>: the call that makes
  the listing raises \<open>e\<close>, or the listing, cut at the limit, yields posts that are handled
  without an exception and then raises \<open>e\<close> or yields a post whose handling raises \<open>e\<close>;
  and let \<open>e\<close> have no attribute \<^verbatim>\<open>response\<close>, or a response object as its value. Then
  the operation returns one error record. Its \<^verbatim>\<open>error_details\<close> are, in this order,
  \<^verbatim>\<open>str(e)\<close> under \<^verbatim>\<open>error\<close>, the name of the class of \<open>e\<close> under
  \<^verbatim>\<open>error_type\<close>, the request parameters (the subreddits and the time filter for
  \<^verbatim>\<open>get_top_subreddit_posts\<close>, the subreddits alone for \<^verbatim>\<open>search_posts\<close>, none for
  \<^verbatim>\<open>search_reddit\<close>), the two diagnostic booleans and, exactly when \<open>e\<close> carries a
  response, its status code, its headers and the first 500 characters of its body. There
  is no entry for the search query.
\<close>

theorem error_record_contents:
  assumes clean: "\<forall>p \<in> set ps. post_raises pyd p = None"
    and raised: "tail = Raises e \<or> (\<exists>p rest. tail = Yields p rest \<and> post_raises pyd p = Some e)"
    and resp: "response e \<noteq> ResponseNone"
  shows "(subreddit_top reddit subreddits time_filter limit = Inl e
          \<or> (\<exists>l. subreddit_top reddit subreddits time_filter limit = Inr l \<and>
                 listing_generator limit l = yields_then ps tail) \<longrightarrow>
     get_top_subreddit_posts pyd reddit subreddits limit comment_limit time_filter =
       Inr [ErrorDict
          \<lparr> error_details =
              [(''error'', PyStr (str_e e)),
               (''error_type'', PyStr (type_name e)),
               (''subreddits'', PyStr subreddits),
               (''time_filter'', PyStr time_filter),
               (''reddit_read_only'', PyBool (read_only reddit)),
               (''client_id_exists'', PyBool (truthy (config_client_id reddit)))]
              @ http_details e,
            message = ''Top posts retrieval failed for r/'' @ subreddits @ '': '' @ str_e e,
            debug_info = ''Check error_details for Reddit API response information'' \<rparr>])
   \<and> (subreddit_search reddit subreddits query sort_order limit = Inl e
          \<or> (\<exists>l. subreddit_search reddit subreddits query sort_order limit = Inr l \<and>
                 listing_generator limit l = yields_then ps tail) \<longrightarrow>
     search_posts pyd reddit subreddits query limit comment_limit sort_order =
       Inr [ErrorDict
          \<lparr> error_details =
              [(''error'', PyStr (str_e e)),
               (''error_type'', PyStr (type_name e)),
               (''subreddits'', PyStr subreddits),
               (''reddit_read_only'', PyBool (read_only reddit)),
               (''client_id_exists'', PyBool (truthy (config_client_id reddit)))]
              @ http_details e,
            message = ''Subreddit search failed for r/'' @ subreddits @ '': '' @ str_e e,
            debug_info = ''Check error_details for Reddit API response information'' \<rparr>])
   \<and> (subreddit_search reddit ''all'' query sort_order limit = Inl e
          \<or> (\<exists>l. subreddit_search reddit ''all'' query sort_order limit = Inr l \<and>
                 listing_generator limit l = yields_then ps tail) \<longrightarrow>
     search_reddit pyd reddit query limit comment_limit sort_order =
       Inr [ErrorDict
          \<lparr> error_details =
              [(''error'', PyStr (str_e e)),
               (''error_type'', PyStr (type_name e)),
               (''reddit_read_only'', PyBool (read_only reddit)),
               (''client_id_exists'', PyBool (truthy (config_client_id reddit)))]
              @ http_details e,
            message = ''Reddit search failed: '' @ str_e e,
            debug_info = ''Check error_details for Reddit API response information'' \<rparr>])
   \<and> http_details e =
       (case response e of
          ResponseObj r \<Rightarrow>
            [(''http_status'', PyInt (status_code r)),
             (''response_headers'', PyDict (headers r)),
             (''response_body'', PyStr (take 500 (body_text r)))]
        | NoResponseAttr \<Rightarrow> []
        | ResponseNone \<Rightarrow> [])"
proof (intro conjI impI)
  assume "subreddit_top reddit subreddits time_filter limit = Inl e
          \<or> (\<exists>l. subreddit_top reddit subreddits time_filter limit = Inr l \<and>
                 listing_generator limit l = yields_then ps tail)"
  from try_block_raises [OF clean raised this, of comment_limit]
  show "get_top_subreddit_posts pyd reddit subreddits limit comment_limit time_filter =
       Inr [ErrorDict
          \<lparr> error_details =
              [(''error'', PyStr (str_e e)),
               (''error_type'', PyStr (type_name e)),
               (''subreddits'', PyStr subreddits),
               (''time_filter'', PyStr time_filter),
               (''reddit_read_only'', PyBool (read_only reddit)),
               (''client_id_exists'', PyBool (truthy (config_client_id reddit)))]
              @ http_details e,
            message = ''Top posts retrieval failed for r/'' @ subreddits @ '': '' @ str_e e,
            debug_info = ''Check error_details for Reddit API response information'' \<rparr>]"
    by (simp add: get_top_subreddit_posts_def top_posts_record [OF resp])
next
  assume "subreddit_search reddit subreddits query sort_order limit = Inl e
          \<or> (\<exists>l. subreddit_search reddit subreddits query sort_order limit = Inr l \<and>
                 listing_generator limit l = yields_then ps tail)"
  from try_block_raises [OF clean raised this, of comment_limit]
  show "search_posts pyd reddit subreddits query limit comment_limit sort_order =
       Inr [ErrorDict
          \<lparr> error_details =
              [(''error'', PyStr (str_e e)),
               (''error_type'', PyStr (type_name e)),
               (''subreddits'', PyStr subreddits),
               (''reddit_read_only'', PyBool (read_only reddit)),
               (''client_id_exists'', PyBool (truthy (config_client_id reddit)))]
              @ http_details e,
            message = ''Subreddit search failed for r/'' @ subreddits @ '': '' @ str_e e,
            debug_info = ''Check error_details for Reddit API response information'' \<rparr>]"
    by (simp add: search_posts_def search_posts_record [OF resp])
next
  assume "subreddit_search reddit ''all'' query sort_order limit = Inl e
          \<or> (\<exists>l. subreddit_search reddit ''all'' query sort_order limit = Inr l \<and>
                 listing_generator limit l = yields_then ps tail)"
  from try_block_raises [OF clean raised this, of comment_limit]
  show "search_reddit pyd reddit query limit comment_limit sort_order =
       Inr [ErrorDict
          \<lparr> error_details =
              [(''error'', PyStr (str_e e)),
               (''error_type'', PyStr (type_name e)),
               (''reddit_read_only'', PyBool (read_only reddit)),
               (''client_id_exists'', PyBool (truthy (config_client_id reddit)))]
              @ http_details e,
            message = ''Reddit search failed: '' @ str_e e,
            debug_info = ''Check error_details for Reddit API response information'' \<rparr>]"
    by (simp add: search_reddit_def search_reddit_record [OF resp])
next
  show "http_details e =
       (case response e of
          ResponseObj r \<Rightarrow>
            [(''http_status'', PyInt (status_code r)),
             (''response_headers'', PyDict (headers r)),
             (''response_body'', PyStr (take 500 (body_text r)))]
        | NoResponseAttr \<Rightarrow> []
        | ResponseNone \<Rightarrow> [])"
    by (simp add: http_details_def)
qed

theorem error_record_contents_witness:
  "post_raises example_pydantic (example_post ''one'' (Inr example_forest)) = None
   \<and> post_raises example_pydantic (example_post ''two'' (Inl too_many_requests)) =
       Some too_many_requests
   \<and> response too_many_requests \<noteq> ResponseNone
   \<and> listing_generator 5 failing_listing =
       yields_then [example_post ''one'' (Inr example_forest)]
         (Yields (example_post ''two'' (Inl too_many_requests)) Exhausted)
   \<and> get_top_subreddit_posts example_pydantic (example_client (Inr failing_listing))
       ''python'' 5 5 ''week'' =
       Inr [ErrorDict
          \<lparr> error_details =
              [(''error'', PyStr ''received 429 HTTP response''),
               (''error_type'', PyStr ''TooManyRequests''),
               (''subreddits'', PyStr ''python''),
               (''time_filter'', PyStr ''week''),
               (''reddit_read_only'', PyBool True),
               (''client_id_exists'', PyBool True),
               (''http_status'', PyInt 429),
               (''response_headers'', PyDict [(''retry-after'', ''5'')]),
               (''response_body'', PyStr ''Too Many Requests'')],
            message = ''Top posts retrieval failed for r/python: received 429 HTTP response'',
            debug_info = ''Check error_details for Reddit API response information'' \<rparr>]
   \<and> response bad_time_filter \<noteq> ResponseNone
   \<and> get_top_subreddit_posts example_pydantic (example_client (Inl bad_time_filter))
       ''python'' 0 5 ''fortnight'' =
       Inr [ErrorDict
          \<lparr> error_details =
              [(''error'',
                PyStr ''time_filter must be one of: all, day, hour, month, week, year''),
               (''error_type'', PyStr ''ValueError''),
               (''subreddits'', PyStr ''python''),
               (''time_filter'', PyStr ''fortnight''),
               (''reddit_read_only'', PyBool True),
               (''client_id_exists'', PyBool True)],
            message = ''Top posts retrieval failed for r/python: '' @
                      ''time_filter must be one of: all, day, hour, month, week, year'',
            debug_info = ''Check error_details for Reddit API response information'' \<rparr>]"
proof -
  let ?one = "example_post ''one'' (Inr example_forest)"
  let ?two = "example_post ''two'' (Inl too_many_requests)"
  have one: "post_raises example_pydantic ?one = None"
    and two: "post_raises example_pydantic ?two = Some too_many_requests"
    by (simp_all add: post_raises_example raised_by_def)
  have resp: "response too_many_requests \<noteq> ResponseNone"
    by (simp add: too_many_requests_def)
  have listing: "listing_generator 5 failing_listing = yields_then [?one] (Yields ?two Exhausted)"
    by (simp add: listing_generator_def failing_listing_def eval_nat_numeral)
  have clean: "\<forall>p \<in> set [?one]. post_raises example_pydantic p = None"
    using one by simp
  have raised: "Yields ?two Exhausted = Raises too_many_requests
      \<or> (\<exists>p rest. Yields ?two Exhausted = Yields p rest \<and>
            post_raises example_pydantic p = Some too_many_requests)"
    using two by simp
  have call: "subreddit_top (example_client (Inr failing_listing)) ''python'' ''week'' 5
        = Inl too_many_requests
      \<or> (\<exists>l. subreddit_top (example_client (Inr failing_listing)) ''python'' ''week'' 5 = Inr l \<and>
            listing_generator 5 l = yields_then [?one] (Yields ?two Exhausted))"
    using listing by (simp add: example_client_def)
  from error_record_contents [OF clean raised resp, where reddit = "example_client (Inr failing_listing)"
      and subreddits = "''python''" and time_filter = "''week''" and limit = 5
      and comment_limit = 5] call
  have "get_top_subreddit_posts example_pydantic (example_client (Inr failing_listing))
       ''python'' 5 5 ''week'' =
       Inr [ErrorDict
          \<lparr> error_details =
              [(''error'', PyStr (str_e too_many_requests)),
               (''error_type'', PyStr (type_name too_many_requests)),
               (''subreddits'', PyStr ''python''),
               (''time_filter'', PyStr ''week''),
               (''reddit_read_only'', PyBool (read_only (example_client (Inr failing_listing)))),
               (''client_id_exists'',
                PyBool (truthy (config_client_id (example_client (Inr failing_listing)))))]
              @ http_details too_many_requests,
            message = ''Top posts retrieval failed for r/'' @ ''python'' @ '': '' @
                      str_e too_many_requests,
            debug_info = ''Check error_details for Reddit API response information'' \<rparr>]"
    by blast
  then have "get_top_subreddit_posts example_pydantic (example_client (Inr failing_listing))
       ''python'' 5 5 ''week'' =
       Inr [ErrorDict
          \<lparr> error_details =
              [(''error'', PyStr ''received 429 HTTP response''),
               (''error_type'', PyStr ''TooManyRequests''),
               (''subreddits'', PyStr ''python''),
               (''time_filter'', PyStr ''week''),
               (''reddit_read_only'', PyBool True),
               (''client_id_exists'', PyBool True),
               (''http_status'', PyInt 429),
               (''response_headers'', PyDict [(''retry-after'', ''5'')]),
               (''response_body'', PyStr ''Too Many Requests'')],
            message = ''Top posts retrieval failed for r/python: received 429 HTTP response'',
            debug_info = ''Check error_details for Reddit API response information'' \<rparr>]"
    by (simp add: http_details_429 example_client_def truthy_def)
       (simp add: too_many_requests_def)
  note first = this
  have resp0: "response bad_time_filter \<noteq> ResponseNone"
    by (simp add: bad_time_filter_def)
  have clean0: "\<forall>p \<in> set []. post_raises example_pydantic p = None"
    by simp
  have raised0: "Raises bad_time_filter = Raises bad_time_filter
      \<or> (\<exists>p rest. Raises bad_time_filter = Yields p rest \<and>
            post_raises example_pydantic p = Some bad_time_filter)"
    by simp
  have call0: "subreddit_top (example_client (Inl bad_time_filter)) ''python'' ''fortnight'' 0
        = Inl bad_time_filter
      \<or> (\<exists>l. subreddit_top (example_client (Inl bad_time_filter)) ''python'' ''fortnight'' 0
              = Inr l \<and>
            listing_generator 0 l = yields_then [] (Raises bad_time_filter))"
    by (simp add: example_client_def)
  from error_record_contents [OF clean0 raised0 resp0,
      where reddit = "example_client (Inl bad_time_filter)"
      and subreddits = "''python''" and time_filter = "''fortnight''" and limit = 0
      and comment_limit = 5] call0
  have "get_top_subreddit_posts example_pydantic (example_client (Inl bad_time_filter))
       ''python'' 0 5 ''fortnight'' =
       Inr [ErrorDict
          \<lparr> error_details =
              [(''error'', PyStr (str_e bad_time_filter)),
               (''error_type'', PyStr (type_name bad_time_filter)),
               (''subreddits'', PyStr ''python''),
               (''time_filter'', PyStr ''fortnight''),
               (''reddit_read_only'',
                PyBool (read_only (example_client (Inl bad_time_filter)))),
               (''client_id_exists'',
                PyBool (truthy (config_client_id (example_client (Inl bad_time_filter)))))]
              @ http_details bad_time_filter,
            message = ''Top posts retrieval failed for r/'' @ ''python'' @ '': '' @
                      str_e bad_time_filter,
            debug_info = ''Check error_details for Reddit API response information'' \<rparr>]"
    by blast
  then have second: "get_top_subreddit_posts example_pydantic
       (example_client (Inl bad_time_filter)) ''python'' 0 5 ''fortnight'' =
       Inr [ErrorDict
          \<lparr> error_details =
              [(''error'',
                PyStr ''time_filter must be one of: all, day, hour, month, week, year''),
               (''error_type'', PyStr ''ValueError''),
               (''subreddits'', PyStr ''python''),
               (''time_filter'', PyStr ''fortnight''),
               (''reddit_read_only'', PyBool True),
               (''client_id_exists'', PyBool True)],
            message = ''Top posts retrieval failed for r/python: '' @
                      ''time_filter must be one of: all, day, hour, month, week, year'',
            debug_info = ''Check error_details for Reddit API response information'' \<rparr>]"
    by (simp add: http_details_def example_client_def truthy_def)
       (simp add: bad_time_filter_def)
  from one two resp listing first resp0 second show ?thesis
    by blast
qed

text \<open>
  The error records of a failed \<^verbatim>\<open>search_posts\<close> and of a failed \<^verbatim>\<open>search_reddit\<close>
  for the query \<^verbatim>\<open>langchain\<close>: no entry holds the query.
\<close>

theorem error_record_has_no_query_entry:
  "search_posts example_pydantic (example_client (Inr (Raises too_many_requests)))
       ''python'' ''langchain'' 5 5 ''relevance'' =
       Inr [ErrorDict
          \<lparr> error_details =
              [(''error'', PyStr ''received 429 HTTP response''),
               (''error_type'', PyStr ''TooManyRequests''),
               (''subreddits'', PyStr ''python''),
               (''reddit_read_only'', PyBool True),
               (''client_id_exists'', PyBool True),
               (''http_status'', PyInt 429),
               (''response_headers'', PyDict [(''retry-after'', ''5'')]),
               (''response_body'', PyStr ''Too Many Requests'')],
            message = ''Subreddit search failed for r/python: received 429 HTTP response'',
            debug_info = ''Check error_details for Reddit API response information'' \<rparr>]
   \<and> search_reddit example_pydantic (example_client (Inr (Raises too_many_requests)))
       ''langchain'' 5 5 ''relevance'' =
       Inr [ErrorDict
          \<lparr> error_details =
              [(''error'', PyStr ''received 429 HTTP response''),
               (''error_type'', PyStr ''TooManyRequests''),
               (''reddit_read_only'', PyBool True),
               (''client_id_exists'', PyBool True),
               (''http_status'', PyInt 429),
               (''response_headers'', PyDict [(''retry-after'', ''5'')]),
               (''response_body'', PyStr ''Too Many Requests'')],
            message = ''Reddit search failed: received 429 HTTP response'',
            debug_info = ''Check error_details for Reddit API response information'' \<rparr>]"
proof -
  have resp: "response too_many_requests \<noteq> ResponseNone"
    by (simp add: too_many_requests_def)
  have "try_block example_pydantic 5 5 (Inr (Raises too_many_requests)) = Inl too_many_requests"
    by (simp add: try_block_def listing_generator_def eval_nat_numeral)
  then show ?thesis
    by (simp add: search_posts_def search_reddit_def example_client_def
        search_posts_record [OF resp] search_reddit_record [OF resp] http_details_429 truthy_def)
       (simp add: too_many_requests_def)
qed

lemma list_all2_right_member:
  "list_all2 P xs ys \<Longrightarrow> y \<in> set ys \<Longrightarrow> \<exists>x. P x y"
  by (induction xs ys rule: list_all2_induct) auto

lemma length_py_prefix: "0 \<le> n \<Longrightarrow> int (length (py_prefix n xs)) \<le> n"
  by (simp add: py_prefix_def)

lemma returned_within_limits:
  assumes "try_block pyd limit cl call = Inr posts"
    and "0 \<le> limit" and "0 \<le> cl"
  shows "int (length posts) \<le> limit
       \<and> (\<forall>d \<in> set posts. int (length (comments d)) \<le> cl)
       \<and> (\<exists>l. call = Inr l \<and>
            list_all2 (first_comments cl) (take (nat limit) (yielded l)) posts)"
proof -
  from try_block_returns [OF assms(1)] obtain l where l: "call = Inr l"
    and recs: "list_all2 (\<lambda>p d. post_record pyd cl p = Inr d) (take (nat limit) (yielded l)) posts"
    by blast
  let ?subs = "take (nat limit) (yielded l)"
  from recs have "length ?subs = length posts"
    by (rule list_all2_lengthD)
  then have "length posts \<le> nat limit"
    by simp
  with assms(2) have len: "int (length posts) \<le> limit"
    by linarith
  have "int (length (comments d)) \<le> cl" if "d \<in> set posts" for d
  proof -
    from list_all2_right_member [OF recs that] obtain p where "post_record pyd cl p = Inr d"
      by blast
    then show ?thesis
      using assms(3) by (auto simp: post_record_Inr length_py_prefix)
  qed
  moreover have "list_all2 (first_comments cl) ?subs posts"
    using recs by (rule list_all2_mono) (rule post_record_first_comments)
  ultimately show ?thesis
    using len l by blast
qed

text \<open>
  Claim C2. For a limit and a comment limit that are not negative, a call that returns
  post records returns at most \<open>limit\<close> of them, each with at most \<open>comment_limit\<close>
  comments. The records are those of the first posts of the listing, in its order, and the
  comments of each are the bodies of the first \<open>comment_limit\<close> comments of the flattened
  tree of its post, in the order of the flattened tree.
\<close>

theorem successful_fetch_within_limits:
  assumes "0 \<le> limit" and "0 \<le> comment_limit"
  shows "(get_top_subreddit_posts pyd reddit subreddits limit comment_limit time_filter
            = Inr (map PostDict posts) \<longrightarrow>
          int (length posts) \<le> limit
          \<and> (\<forall>d \<in> set posts. int (length (comments d)) \<le> comment_limit)
          \<and> (\<exists>l. subreddit_top reddit subreddits time_filter limit = Inr l \<and>
               list_all2 (first_comments comment_limit) (take (nat limit) (yielded l)) posts))
       \<and> (search_posts pyd reddit subreddits query limit comment_limit sort_order
            = Inr (map PostDict posts) \<longrightarrow>
          int (length posts) \<le> limit
          \<and> (\<forall>d \<in> set posts. int (length (comments d)) \<le> comment_limit)
          \<and> (\<exists>l. subreddit_search reddit subreddits query sort_order limit = Inr l \<and>
               list_all2 (first_comments comment_limit) (take (nat limit) (yielded l)) posts))
       \<and> (search_reddit pyd reddit query limit comment_limit sort_order
            = Inr (map PostDict posts) \<longrightarrow>
          int (length posts) \<le> limit
          \<and> (\<forall>d \<in> set posts. int (length (comments d)) \<le> comment_limit)
          \<and> (\<exists>l. subreddit_search reddit ''all'' query sort_order limit = Inr l \<and>
               list_all2 (first_comments comment_limit) (take (nat limit) (yielded l)) posts))"
proof (intro conjI impI)
  assume "get_top_subreddit_posts pyd reddit subreddits limit comment_limit time_filter
            = Inr (map PostDict posts)"
  then have "try_block pyd limit comment_limit
      (subreddit_top reddit subreddits time_filter limit) = Inr posts"
    unfolding get_top_subreddit_posts_def
    by (rule returned_posts) (rule handlers_return_one_error)
  from returned_within_limits [OF this assms]
  show "int (length posts) \<le> limit"
    and "\<forall>d \<in> set posts. int (length (comments d)) \<le> comment_limit"
    and "\<exists>l. subreddit_top reddit subreddits time_filter limit = Inr l \<and>
           list_all2 (first_comments comment_limit) (take (nat limit) (yielded l)) posts"
    by simp_all
next
  assume "search_posts pyd reddit subreddits query limit comment_limit sort_order
            = Inr (map PostDict posts)"
  then have "try_block pyd limit comment_limit
      (subreddit_search reddit subreddits query sort_order limit) = Inr posts"
    unfolding search_posts_def
    by (rule returned_posts) (rule handlers_return_one_error)
  from returned_within_limits [OF this assms]
  show "int (length posts) \<le> limit"
    and "\<forall>d \<in> set posts. int (length (comments d)) \<le> comment_limit"
    and "\<exists>l. subreddit_search reddit subreddits query sort_order limit = Inr l \<and>
           list_all2 (first_comments comment_limit) (take (nat limit) (yielded l)) posts"
    by simp_all
next
  assume "search_reddit pyd reddit query limit comment_limit sort_order
            = Inr (map PostDict posts)"
  then have "try_block pyd limit comment_limit
      (subreddit_search reddit ''all'' query sort_order limit) = Inr posts"
    unfolding search_reddit_def
    by (rule returned_posts) (rule handlers_return_one_error)
  from returned_within_limits [OF this assms]
  show "int (length posts) \<le> limit"
    and "\<forall>d \<in> set posts. int (length (comments d)) \<le> comment_limit"
    and "\<exists>l. subreddit_search reddit ''all'' query sort_order limit = Inr l \<and>
           list_all2 (first_comments comment_limit) (take (nat limit) (yielded l)) posts"
    by simp_all
qed

theorem successful_fetch_within_limits_witness:
  "(0::int) \<le> 2 \<and> (0::int) \<le> 1
   \<and> get_top_subreddit_posts example_pydantic (example_client (Inr three_posts)) ''python'' 2 1
       ''week'' =
       Inr (map PostDict [example_record ''one'' [''first''], example_record ''two'' []])
   \<and> int (length [example_record ''one'' [''first''], example_record ''two'' []]) \<le> 2
   \<and> list_all (\<lambda>d. int (length (comments d)) \<le> 1)
       [example_record ''one'' [''first''], example_record ''two'' []]"
  using successful_fetch_within_limits [where limit = 2 and comment_limit = 1 and pyd = example_pydantic
      and reddit = "example_client (Inr three_posts)" and subreddits = "''python''"
      and time_filter = "''week''"
      and posts = "[example_record ''one'' [''first''], example_record ''two'' []]"]
    three_posts_limit_2
  by (simp add: example_record_def)

lemma returned_top_level_first:
  assumes "try_block pyd limit cl call = Inr posts"
  shows "\<exists>l. call = Inr l \<and>
           list_all2 (top_level_first cl) (take (nat limit) (yielded l)) posts"
proof -
  from try_block_returns [OF assms] obtain l where l: "call = Inr l"
    and recs: "list_all2 (\<lambda>p d. post_record pyd cl p = Inr d) (take (nat limit) (yielded l)) posts"
    by blast
  have "list_all2 (top_level_first cl) (take (nat limit) (yielded l)) posts"
    using recs by (rule list_all2_mono) (rule post_record_top_level_first)
  with l show ?thesis by blast
qed

text \<open>
  Claim C7, as the code has it. For every post returned by a successful fetch, the
  comments are the first \<open>comment_limit\<close> bodies of the flattened tree: the bodies of the
  comments of the top level in their order, followed by the bodies of the replies, level by
  level. Placeholders are removed at every depth and contribute no comment. When
  \<open>comment_limit\<close> is not negative and not larger than the number of comments of the top
  level, the comments are bodies of comments of the top level only.
\<close>

theorem comments_are_prefix_of_flattened_tree:
  "(get_top_subreddit_posts pyd reddit subreddits limit comment_limit time_filter
      = Inr (map PostDict posts) \<longrightarrow>
    (\<exists>l. subreddit_top reddit subreddits time_filter limit = Inr l \<and>
       list_all2 (top_level_first comment_limit) (take (nat limit) (yielded l)) posts))
   \<and> (search_posts pyd reddit subreddits query limit comment_limit sort_order
      = Inr (map PostDict posts) \<longrightarrow>
    (\<exists>l. subreddit_search reddit subreddits query sort_order limit = Inr l \<and>
       list_all2 (top_level_first comment_limit) (take (nat limit) (yielded l)) posts))
   \<and> (search_reddit pyd reddit query limit comment_limit sort_order
      = Inr (map PostDict posts) \<longrightarrow>
    (\<exists>l. subreddit_search reddit ''all'' query sort_order limit = Inr l \<and>
       list_all2 (top_level_first comment_limit) (take (nat limit) (yielded l)) posts))
   \<and> (top_level_first comment_limit p d \<and> sub_comments p = Inr forest \<and> 0 \<le> comment_limit \<and>
       nat comment_limit \<le> length (bodies_of forest) \<longrightarrow>
      comments d = take (nat comment_limit) (bodies_of forest))
   \<and> list_all no_placeholder (comments_list (replace_more forest))"
proof (intro conjI impI)
  assume "get_top_subreddit_posts pyd reddit subreddits limit comment_limit time_filter
      = Inr (map PostDict posts)"
  then have "try_block pyd limit comment_limit
      (subreddit_top reddit subreddits time_filter limit) = Inr posts"
    unfolding get_top_subreddit_posts_def
    by (rule returned_posts) (rule handlers_return_one_error)
  then show "\<exists>l. subreddit_top reddit subreddits time_filter limit = Inr l \<and>
       list_all2 (top_level_first comment_limit) (take (nat limit) (yielded l)) posts"
    by (rule returned_top_level_first)
next
  assume "search_posts pyd reddit subreddits query limit comment_limit sort_order
      = Inr (map PostDict posts)"
  then have "try_block pyd limit comment_limit
      (subreddit_search reddit subreddits query sort_order limit) = Inr posts"
    unfolding search_posts_def
    by (rule returned_posts) (rule handlers_return_one_error)
  then show "\<exists>l. subreddit_search reddit subreddits query sort_order limit = Inr l \<and>
       list_all2 (top_level_first comment_limit) (take (nat limit) (yielded l)) posts"
    by (rule returned_top_level_first)
next
  assume "search_reddit pyd reddit query limit comment_limit sort_order
      = Inr (map PostDict posts)"
  then have "try_block pyd limit comment_limit
      (subreddit_search reddit ''all'' query sort_order limit) = Inr posts"
    unfolding search_reddit_def
    by (rule returned_posts) (rule handlers_return_one_error)
  then show "\<exists>l. subreddit_search reddit ''all'' query sort_order limit = Inr l \<and>
       list_all2 (top_level_first comment_limit) (take (nat limit) (yielded l)) posts"
    by (rule returned_top_level_first)
next
  assume "top_level_first comment_limit p d \<and> sub_comments p = Inr forest \<and> 0 \<le> comment_limit \<and>
       nat comment_limit \<le> length (bodies_of forest)"
  then show "comments d = take (nat comment_limit) (bodies_of forest)"
    using top_level_only by blast
next
  show "list_all no_placeholder (comments_list (replace_more forest))"
    by (rule no_placeholder_comments_list [OF no_placeholder_replace_more])
qed

theorem comments_are_prefix_of_flattened_tree_witness:
  "get_top_subreddit_posts example_pydantic (example_client (Inr three_posts)) ''python'' 2 1
       ''week'' =
       Inr (map PostDict [example_record ''one'' [''first''], example_record ''two'' []])
   \<and> top_level_first 1 (example_post ''one'' (Inr example_forest))
       (example_record ''one'' [''first''])
   \<and> top_level_first 1 (example_post ''two'' (Inr [])) (example_record ''two'' [])
   \<and> sub_comments (example_post ''one'' (Inr example_forest)) = Inr example_forest
   \<and> nat 1 \<le> length (bodies_of example_forest)
   \<and> comments (example_record ''one'' [''first'']) = take (nat 1) (bodies_of example_forest)"
  using comments_are_prefix_of_flattened_tree [where reddit = "example_client (Inr three_posts)" and subreddits = "''python''"
      and pyd = example_pydantic
      and limit = 2 and comment_limit = 1 and time_filter = "''week''"
      and posts = "[example_record ''one'' [''first''], example_record ''two'' []]"
      and p = "example_post ''one'' (Inr example_forest)"
      and d = "example_record ''one'' [''first'']" and forest = example_forest]
    three_posts_limit_2
  by (simp add: example_client_def three_posts_def eval_nat_numeral)
     (simp add: example_post_def example_forest_def example_record_def)

text \<open>
  A post with two comments of the top level and one reply, fetched with a comment limit of
  5: the body of the reply is among the comments of the record.
\<close>

theorem comments_include_replies:
  "search_reddit example_pydantic
       (example_client (Inr (Yields (example_post ''one'' (Inr example_forest)) Exhausted)))
       ''question'' 5 5 ''relevance'' =
     Inr [PostDict (example_record ''one'' [''first'', ''second'', ''reply to first''])]
   \<and> comments (example_record ''one'' [''first'', ''second'', ''reply to first'']) =
       [''first'', ''second'', ''reply to first'']
   \<and> bodies_of example_forest = [''first'', ''second'']
   \<and> example_forest =
       [Comment ''first'' [Comment ''reply to first'' [], MoreComments], MoreComments,
        Comment ''second'' []]"
  by (simp add: search_reddit_def try_block_def listing_generator_def example_client_def
      eval_nat_numeral post_record_example)
     (simp add: example_record_def example_forest_def)

end
